theory Spec2Isabelle
  imports Main
begin

section \<open>JavaScript string primitives used by the CSV layer\<close>

text \<open>
  A string is a list of 8-bit characters, each standing for the UTF-16 code unit of the
  same number (U+0000 to U+00FF). The separators the parsers split on are the line feed
  and the comma; the double quote is the only quoting character.
\<close>

abbreviation (input) LF :: char where "LF \<equiv> CHR 0x0A"
abbreviation (input) CR :: char where "CR \<equiv> CHR 0x0D"
abbreviation (input) comma :: char where "comma \<equiv> CHR 0x2C"
abbreviation (input) dquote :: char where "dquote \<equiv> CHR 0x22"

text \<open>\<^verbatim>\<open>s.split(sep)\<close> for a one-character separator: always at least one piece.\<close>

fun split_on :: "char \<Rightarrow> string \<Rightarrow> string list" where
  "split_on sep [] = [[]]"
| "split_on sep (x # xs) =
     (if x = sep then [] # split_on sep xs
      else (case split_on sep xs of
              [] \<Rightarrow> [[x]]
            | w # ws \<Rightarrow> (x # w) # ws))"

text \<open>\<^verbatim>\<open>arr.join(sep)\<close> for a one-character separator.\<close>

fun join :: "char \<Rightarrow> string list \<Rightarrow> string" where
  "join sep [] = []"
| "join sep [x] = x"
| "join sep (x # y # ys) = x @ sep # join sep (y # ys)"

text \<open>
  The characters \<^verbatim>\<open>trim()\<close> removes, among the code units below 256: tab, line feed,
  vertical tab, form feed, carriage return, space and the no-break space U+00A0.
\<close>

definition is_ws :: "char \<Rightarrow> bool" where
  "is_ws c \<longleftrightarrow>
     c \<in> set [CHR 0x09, CHR 0x0A, CHR 0x0B, CHR 0x0C, CHR 0x0D, CHR 0x20, CHR 0xA0]"

definition trim :: "string \<Rightarrow> string" where
  "trim s = rev (dropWhile is_ws (rev (dropWhile is_ws s)))"

text \<open>
  \<^verbatim>\<open>toLowerCase()\<close> on code units below 256: the letters A to Z and the capital
  letters U+00C0 to U+00DE (the multiplication sign U+00D7 apart) move to the code unit
  32 above; every other character stays.
\<close>

definition upper_letters :: string where
  "upper_letters =
     ''ABCDEFGHIJKLMNOPQRSTUVWXYZ'' @
     [CHR 0xC0, CHR 0xC1, CHR 0xC2, CHR 0xC3, CHR 0xC4, CHR 0xC5, CHR 0xC6, CHR 0xC7,
      CHR 0xC8, CHR 0xC9, CHR 0xCA, CHR 0xCB, CHR 0xCC, CHR 0xCD, CHR 0xCE, CHR 0xCF,
      CHR 0xD0, CHR 0xD1, CHR 0xD2, CHR 0xD3, CHR 0xD4, CHR 0xD5, CHR 0xD6, CHR 0xD8,
      CHR 0xD9, CHR 0xDA, CHR 0xDB, CHR 0xDC, CHR 0xDD, CHR 0xDE]"

definition lower_letters :: string where
  "lower_letters =
     ''abcdefghijklmnopqrstuvwxyz'' @
     [CHR 0xE0, CHR 0xE1, CHR 0xE2, CHR 0xE3, CHR 0xE4, CHR 0xE5, CHR 0xE6, CHR 0xE7,
      CHR 0xE8, CHR 0xE9, CHR 0xEA, CHR 0xEB, CHR 0xEC, CHR 0xED, CHR 0xEE, CHR 0xEF,
      CHR 0xF0, CHR 0xF1, CHR 0xF2, CHR 0xF3, CHR 0xF4, CHR 0xF5, CHR 0xF6, CHR 0xF8,
      CHR 0xF9, CHR 0xFA, CHR 0xFB, CHR 0xFC, CHR 0xFD, CHR 0xFE]"

definition lower_char :: "char \<Rightarrow> char" where
  "lower_char c = (case map_of (zip upper_letters lower_letters) c of Some l \<Rightarrow> l | None \<Rightarrow> c)"

definition toLowerCase :: "string \<Rightarrow> string" where
  "toLowerCase s = map lower_char s"

text \<open>
  \<^verbatim>\<open>v.replace(/^"(.*)"$/, '$1')\<close>: the pattern is anchored at both ends and has no flags,
  so it matches only the whole string, which must begin and end with a double quote; the
  dot does not match a line terminator. On a match the string is replaced by the text
  between the two quotes, otherwise it is returned as it is.
\<close>

definition is_line_terminator :: "char \<Rightarrow> bool" where
  "is_line_terminator c \<longleftrightarrow> c = LF \<or> c = CR"

definition strip_quotes :: "string \<Rightarrow> string" where
  "strip_quotes s =
     (case s of
        [] \<Rightarrow> s
      | q # r \<Rightarrow>
          if q = dquote \<and> r \<noteq> [] \<and> last r = dquote \<and> \<not> list_ex is_line_terminator (butlast r)
          then butlast r else s)"

text \<open>\<^verbatim>\<open>s.includes(t)\<close>: \<open>t\<close> occurs in \<open>s\<close> as a contiguous substring.\<close>

fun is_prefix :: "string \<Rightarrow> string \<Rightarrow> bool" where
  "is_prefix [] s = True"
| "is_prefix (x # xs) [] = False"
| "is_prefix (x # xs) (y # ys) = (x = y \<and> is_prefix xs ys)"

fun includes_str :: "string \<Rightarrow> string \<Rightarrow> bool" where
  "includes_str [] t = (t = [])"
| "includes_str (x # xs) t = (is_prefix t (x # xs) \<or> includes_str xs t)"

text \<open>Truthiness of an optional string: \<^verbatim>\<open>undefined\<close> and the empty string are falsy.\<close>

fun truthy :: "string option \<Rightarrow> bool" where
  "truthy None = False"
| "truthy (Some v) = (v \<noteq> [])"

text \<open>\<^verbatim>\<open>x || d\<close> for an optional string \<open>x\<close> and a string default.\<close>

definition or_default :: "string option \<Rightarrow> string \<Rightarrow> string" where
  "or_default x d = (case x of None \<Rightarrow> d | Some v \<Rightarrow> if v = [] then d else v)"

text \<open>\<^verbatim>\<open>x || null\<close> for an optional string \<open>x\<close>.\<close>

definition or_null :: "string option \<Rightarrow> string option" where
  "or_null x = (if truthy x then x else None)"

text \<open>The header row: \<^verbatim>\<open>lines[0].split(',').map(h => h.trim().toLowerCase())\<close>.\<close>

definition parse_headers :: "string \<Rightarrow> string list" where
  "parse_headers line = map (\<lambda>h. toLowerCase (trim h)) (split_on comma line)"

text \<open>The errors the parsers throw, one constructor per message; line numbers and counts
  are the numbers interpolated into the message.\<close>

datatype csv_error =
    TooFewLines
  | MissingHeaders "string list"
  | ColumnCountMismatch nat nat nat
  | MissingRequiredValues nat
  | MissingRequiredField nat "string option" "string option" "string option"
  | NoValidVMRecords


section \<open>Components\<close>

text \<open>
  The parsers build each row in an object that starts empty, so every property is
  optional until it is assigned. Record fields carry a prefix for the type they belong
  to (\<open>cc_\<close> for \<^verbatim>\<open>CSVComponent\<close>, \<open>ic_\<close> for \<^verbatim>\<open>InsertComponent\<close>, and so on), since
  several types share property names.
\<close>

record CSVComponent =
  cc_name :: "string option"
  cc_category :: "string option"
  cc_quantity :: "string option"
  cc_serialNumber :: "string option"
  cc_manufacturer :: "string option"
  cc_model :: "string option"
  cc_notes :: "string option"

definition empty_component :: CSVComponent where
  "empty_component =
     \<lparr>cc_name = None, cc_category = None, cc_quantity = None, cc_serialNumber = None,
      cc_manufacturer = None, cc_model = None, cc_notes = None\<rparr>"

text \<open>The body of \<^verbatim>\<open>headers.forEach((header, index) => ...)\<close> in \<^verbatim>\<open>parseComponentCSV\<close>.\<close>

definition component_assign :: "string list \<Rightarrow> nat \<times> string \<Rightarrow> CSVComponent \<Rightarrow> CSVComponent" where
  "component_assign values ih component =
     (case ih of (index, header) \<Rightarrow>
        if header = ''name'' then component\<lparr>cc_name := Some (values ! index)\<rparr>
        else if header = ''category'' then component\<lparr>cc_category := Some (values ! index)\<rparr>
        else if header = ''quantity'' then component\<lparr>cc_quantity := Some (values ! index)\<rparr>
        else if header \<in> set [''serialnumber'', ''serial number'', ''serial_number'']
          then component\<lparr>cc_serialNumber := Some (values ! index)\<rparr>
        else if header = ''manufacturer'' then component\<lparr>cc_manufacturer := Some (values ! index)\<rparr>
        else if header = ''model'' then component\<lparr>cc_model := Some (values ! index)\<rparr>
        else if header = ''notes'' then component\<lparr>cc_notes := Some (values ! index)\<rparr>
        else component)"

text \<open>
  The loop over the data rows; \<open>i\<close> is the index of the first remaining line in
  \<^verbatim>\<open>lines\<close>. A thrown error ends the loop; records are pushed in row order. The index
  read \<^verbatim>\<open>values[index]\<close> is in range, as the lengths have just been compared.
\<close>

fun component_rows :: "string list \<Rightarrow> nat \<Rightarrow> string list \<Rightarrow> csv_error + CSVComponent list" where
  "component_rows headers i [] = Inr []"
| "component_rows headers i (l # ls) =
     (if trim l = [] then component_rows headers (i + 1) ls
      else
        let values = map trim (split_on comma l) in
        if length values \<noteq> length headers
        then Inl (ColumnCountMismatch (i + 1) (length values) (length headers))
        else
          let component = fold (component_assign values) (enumerate 0 headers) empty_component in
          if \<not> truthy (cc_name component) \<or> \<not> truthy (cc_category component)
          then Inl (MissingRequiredValues (i + 1))
          else (case component_rows headers (i + 1) ls of
                  Inl e \<Rightarrow> Inl e
                | Inr components \<Rightarrow> Inr (component # components)))"

definition parseComponentCSV :: "string \<Rightarrow> csv_error + CSVComponent list" where
  "parseComponentCSV csvContent =
     (let lines = split_on LF csvContent in
      if length lines < 2 then Inl TooFewLines
      else
        let headers = parse_headers (lines ! 0);
            missingHeaders = filter (\<lambda>header. header \<notin> set headers) [''name'', ''category''] in
        if length missingHeaders > 0 then Inl (MissingHeaders missingHeaders)
        else component_rows headers 1 (drop 1 lines))"

text \<open>
  \<^verbatim>\<open>convertCSVToComponents\<close>. The built-in \<^verbatim>\<open>parseInt\<close> is a parameter; the number type
  \<open>'n\<close> is the type of its results, in which the literal \<^verbatim>\<open>1\<close> is \<open>1\<close>.
\<close>

record 'n InsertComponent =
  ic_name :: "string option"
  ic_category :: "string option"
  ic_description :: "string option"
  ic_purchaseDate :: "string option"
  ic_purchaseCost :: "string option"
  ic_location :: "string option"
  ic_serialNumber :: "string option"
  ic_model :: "string option"
  ic_manufacturer :: "string option"
  ic_notes :: string
  ic_quantity :: 'n

definition convertCSVToComponents ::
  "(string \<Rightarrow> 'n::one) \<Rightarrow> CSVComponent list \<Rightarrow> 'n InsertComponent list" where
  "convertCSVToComponents parseInt csvComponents =
     map (\<lambda>csvComponent.
        let quantity = (if truthy (cc_quantity csvComponent)
                        then parseInt (the (cc_quantity csvComponent)) else 1) in
        \<lparr>ic_name = cc_name csvComponent,
         ic_category = cc_category csvComponent,
         ic_description = None,
         ic_purchaseDate = None,
         ic_purchaseCost = None,
         ic_location = None,
         ic_serialNumber = or_null (cc_serialNumber csvComponent),
         ic_model = or_null (cc_model csvComponent),
         ic_manufacturer = or_null (cc_manufacturer csvComponent),
         ic_notes = or_default (cc_notes csvComponent) ''Imported via CSV'',
         ic_quantity = quantity\<rparr>) csvComponents"

section \<open>Accessories\<close>

record CSVAccessory =
  ca_name :: "string option"
  ca_category :: "string option"
  ca_status :: "string option"
  ca_quantity :: "string option"
  ca_serialNumber :: "string option"
  ca_manufacturer :: "string option"
  ca_model :: "string option"
  ca_notes :: "string option"

definition empty_accessory :: CSVAccessory where
  "empty_accessory =
     \<lparr>ca_name = None, ca_category = None, ca_status = None, ca_quantity = None,
      ca_serialNumber = None, ca_manufacturer = None, ca_model = None, ca_notes = None\<rparr>"

definition accessory_assign :: "string list \<Rightarrow> nat \<times> string \<Rightarrow> CSVAccessory \<Rightarrow> CSVAccessory" where
  "accessory_assign values ih accessory =
     (case ih of (index, header) \<Rightarrow>
        if header = ''name'' then accessory\<lparr>ca_name := Some (values ! index)\<rparr>
        else if header = ''category'' then accessory\<lparr>ca_category := Some (values ! index)\<rparr>
        else if header = ''status'' then accessory\<lparr>ca_status := Some (values ! index)\<rparr>
        else if header = ''quantity'' then accessory\<lparr>ca_quantity := Some (values ! index)\<rparr>
        else if header \<in> set [''serialnumber'', ''serial number'', ''serial_number'']
          then accessory\<lparr>ca_serialNumber := Some (values ! index)\<rparr>
        else if header = ''manufacturer'' then accessory\<lparr>ca_manufacturer := Some (values ! index)\<rparr>
        else if header = ''model'' then accessory\<lparr>ca_model := Some (values ! index)\<rparr>
        else if header = ''notes'' then accessory\<lparr>ca_notes := Some (values ! index)\<rparr>
        else accessory)"

fun accessory_rows :: "string list \<Rightarrow> nat \<Rightarrow> string list \<Rightarrow> csv_error + CSVAccessory list" where
  "accessory_rows headers i [] = Inr []"
| "accessory_rows headers i (l # ls) =
     (if trim l = [] then accessory_rows headers (i + 1) ls
      else
        let values = map trim (split_on comma l) in
        if length values \<noteq> length headers
        then Inl (ColumnCountMismatch (i + 1) (length values) (length headers))
        else
          let accessory = fold (accessory_assign values) (enumerate 0 headers) empty_accessory in
          if \<not> truthy (ca_name accessory) \<or> \<not> truthy (ca_category accessory)
          then Inl (MissingRequiredValues (i + 1))
          else (case accessory_rows headers (i + 1) ls of
                  Inl e \<Rightarrow> Inl e
                | Inr accessories \<Rightarrow> Inr (accessory # accessories)))"

definition parseAccessoryCSV :: "string \<Rightarrow> csv_error + CSVAccessory list" where
  "parseAccessoryCSV csvContent =
     (let lines = split_on LF csvContent in
      if length lines < 2 then Inl TooFewLines
      else
        let headers = parse_headers (lines ! 0);
            missingHeaders = filter (\<lambda>header. header \<notin> set headers) [''name'', ''category''] in
        if length missingHeaders > 0 then Inl (MissingHeaders missingHeaders)
        else accessory_rows headers 1 (drop 1 lines))"

text \<open>
  Modelled from the spec: the \<^verbatim>\<open>AccessoryStatus\<close> enum of the shared schema, which is not
  among the sources. The spec speaks of an enumerated status set; its members are the
  four the converter names.
\<close>

datatype AccessoryStatus = AVAILABLE | BORROWED | RETURNED | DEFECTIVE

record 'n InsertAccessory =
  ia_name :: "string option"
  ia_category :: "string option"
  ia_status :: AccessoryStatus
  ia_description :: "string option"
  ia_purchaseDate :: "string option"
  ia_purchaseCost :: "string option"
  ia_location :: "string option"
  ia_serialNumber :: "string option"
  ia_model :: "string option"
  ia_manufacturer :: "string option"
  ia_notes :: string
  ia_quantity :: 'n
  ia_assignedTo :: "string option"

definition accessory_status :: "string option \<Rightarrow> AccessoryStatus" where
  "accessory_status st =
     (if truthy st then
        (let statusLower = toLowerCase (the st) in
         if includes_str statusLower ''borrowed'' then BORROWED
         else if includes_str statusLower ''returned'' then RETURNED
         else if includes_str statusLower ''defective'' then DEFECTIVE
         else AVAILABLE)
      else AVAILABLE)"

definition convertCSVToAccessories ::
  "(string \<Rightarrow> 'n::one) \<Rightarrow> CSVAccessory list \<Rightarrow> 'n InsertAccessory list" where
  "convertCSVToAccessories parseInt csvAccessories =
     map (\<lambda>csvAccessory.
        let quantity = (if truthy (ca_quantity csvAccessory)
                        then parseInt (the (ca_quantity csvAccessory)) else 1);
            status = accessory_status (ca_status csvAccessory) in
        \<lparr>ia_name = ca_name csvAccessory,
         ia_category = ca_category csvAccessory,
         ia_status = status,
         ia_description = None,
         ia_purchaseDate = None,
         ia_purchaseCost = None,
         ia_location = None,
         ia_serialNumber = or_null (ca_serialNumber csvAccessory),
         ia_model = or_null (ca_model csvAccessory),
         ia_manufacturer = or_null (ca_manufacturer csvAccessory),
         ia_notes = or_default (ca_notes csvAccessory) ''Imported via CSV'',
         ia_quantity = quantity,
         ia_assignedTo = None\<rparr>) csvAccessories"

section \<open>IAM accounts\<close>

record IAMImport =
  iam_requestor :: "string option"
  iam_knoxId :: "string option"
  iam_permission :: "string option"
  iam_durationStartDate :: "string option"
  iam_durationEndDate :: "string option"
  iam_cloudPlatform :: "string option"
  iam_projectAccounts :: "string option"
  iam_approvalId :: "string option"
  iam_remarks :: "string option"
  iam_status :: string

definition statusTypes :: "string list" where
  "statusTypes = [''active'', ''expired'', ''extended'', ''access_removed'']"

text \<open>The row object starts as \<^verbatim>\<open>{ status: 'active' }\<close>.\<close>

definition initial_account :: IAMImport where
  "initial_account =
     \<lparr>iam_requestor = None, iam_knoxId = None, iam_permission = None,
      iam_durationStartDate = None, iam_durationEndDate = None, iam_cloudPlatform = None,
      iam_projectAccounts = None, iam_approvalId = None, iam_remarks = None,
      iam_status = ''active''\<rparr>"

text \<open>\<^verbatim>\<open>values[index] || ''\<close>: a read past the end is \<^verbatim>\<open>undefined\<close>, hence the empty string.\<close>

definition value_or_empty :: "string list \<Rightarrow> nat \<Rightarrow> string" where
  "value_or_empty values index = (if index < length values then values ! index else [])"

definition iam_assign :: "string list \<Rightarrow> nat \<times> string \<Rightarrow> IAMImport \<Rightarrow> IAMImport" where
  "iam_assign values ih account =
     (case ih of (index, header) \<Rightarrow>
        let v = value_or_empty values index in
        if header = ''requestor'' then account\<lparr>iam_requestor := Some v\<rparr>
        else if header \<in> set [''knoxid'', ''knox_id'', ''knox id'']
          then account\<lparr>iam_knoxId := Some v\<rparr>
        else if header \<in> set [''permission'', ''permission/iam/scop'']
          then account\<lparr>iam_permission := Some v\<rparr>
        else if header \<in> set [''durationstartdate'', ''duration_start_date'',
              ''duration start date'']
          then account\<lparr>iam_durationStartDate := Some v\<rparr>
        else if header \<in> set [''durationenddate'', ''duration_end_date'', ''duration end date'']
          then account\<lparr>iam_durationEndDate := Some v\<rparr>
        else if header \<in> set [''cloudplatform'', ''cloud_platform'', ''cloud platform'']
          then account\<lparr>iam_cloudPlatform := Some v\<rparr>
        else if header \<in> set [''projectaccounts'', ''project_accounts'', ''project accounts'']
          then account\<lparr>iam_projectAccounts := Some v\<rparr>
        else if header \<in> set [''approvalid'', ''approval_id'', ''approval id'']
          then account\<lparr>iam_approvalId := Some v\<rparr>
        else if header \<in> set [''remarks'', ''notes'']
          then account\<lparr>iam_remarks := Some v\<rparr>
        else if header = ''status''
          then account\<lparr>iam_status := (if v = [] then ''active'' else v)\<rparr>
        else account)"

fun iam_rows :: "string list \<Rightarrow> string list \<Rightarrow> IAMImport list" where
  "iam_rows headers [] = []"
| "iam_rows headers (l # ls) =
     (let line = trim l in
      if line = [] then iam_rows headers ls
      else
        let values = map (\<lambda>v. trim (strip_quotes v)) (split_on comma line);
            account = fold (iam_assign values) (enumerate 0 headers) initial_account in
        if truthy (iam_requestor account) \<and> truthy (iam_knoxId account)
           \<and> truthy (iam_permission account) \<and> truthy (iam_cloudPlatform account)
        then account # iam_rows headers ls
        else iam_rows headers ls)"

definition parseCSVData :: "string \<Rightarrow> csv_error + IAMImport list" where
  "parseCSVData csvContent =
     (let lines = split_on LF csvContent in
      if length lines < 2 then Inl TooFewLines
      else
        let headers = parse_headers (lines ! 0) in
        Inr (iam_rows headers (drop 1 lines)))"


section \<open>Assets\<close>

text \<open>
  A parsed asset row is an object with arbitrary string keys (unknown headers are stored
  as custom fields), so it is a finite map from property names to values.
\<close>

type_synonym CSVAsset = "string \<rightharpoonup> string"

text \<open>
  The \<^verbatim>\<open>switch (header)\<close> of \<^verbatim>\<open>parseCSV\<close>. In the default branch the assignment
  \<^verbatim>\<open>asset[header] = value\<close> creates a property, except for the key \<^verbatim>\<open>__proto__\<close>, where
  assigning a string leaves the object as it is.
\<close>

definition asset_assign :: "string \<Rightarrow> string \<Rightarrow> CSVAsset \<Rightarrow> CSVAsset" where
  "asset_assign header v asset =
     (if header \<in> set [''knoxid'', ''knox_id'', ''knox id'']
        then asset(''knoxId'' \<mapsto> v)
      else if header \<in> set [''serialnumber'', ''serial_number'', ''serial number'', ''serial'']
        then asset(''serialNumber'' \<mapsto> v)
      else if header \<in> set [''assettag'', ''asset tag'', ''asset_tag'', ''tag'']
        then asset(''assetTag'' \<mapsto> v)
      else if header \<in> set [''name'', ''asset name'', ''asset_name'', ''devicename'',
            ''device_name'', ''device name'']
        then asset(''name'' \<mapsto> v)
      else if header \<in> set [''category'', ''type'', ''device type'', ''device_type'']
        then asset(''category'' \<mapsto> v)
      else if header \<in> set [''status'', ''state'']
        then asset(''status'' \<mapsto> v)
      else if header \<in> set [''condition'', ''asset_condition'', ''asset condition'']
        then asset(''condition'' \<mapsto> v)
      else if header \<in> set [''model'', ''model_number'', ''model number'']
        then asset(''model'' \<mapsto> v)
      else if header \<in> set [''manufacturer'', ''brand'', ''make'', ''vendor'']
        then asset(''manufacturer'' \<mapsto> v)
      else if header \<in> set [''purchasedate'', ''purchaseDate'', ''purchase_date'',
            ''purchase date'', ''acquired_date'', ''acquired date'', ''dateacquired'',
            ''date_acquired'']
        then asset(''purchaseDate'' \<mapsto> v)
      else if header \<in> set [''purchasecost'', ''purchase_cost'', ''purchase cost'',
            ''cost'', ''price'', ''value'']
        then asset(''purchaseCost'' \<mapsto> v)
      else if header \<in> set [''location'', ''site'', ''office'', ''building'', ''room'']
        then asset(''location'' \<mapsto> v)
      else if header \<in> set [''ipaddress'', ''ip address'', ''ip_address'', ''ip'']
        then asset(''ipAddress'' \<mapsto> v)
      else if header \<in> set [''macaddress'', ''mac address'', ''mac_address'', ''mac'']
        then asset(''macAddress'' \<mapsto> v)
      else if header \<in> set [''ostype'', ''os type'', ''os_type'', ''os'',
            ''operating_system'', ''operating system'']
        then asset(''osType'' \<mapsto> v)
      else if header \<in> set [''department'', ''dept'', ''division'', ''unit'']
        then asset(''department'' \<mapsto> v)
      else if header \<in> set [''description'', ''notes'', ''comments'', ''remarks'']
        then asset(''description'' \<mapsto> v)
      else if header \<in> set [''warranty'', ''warranty_date'', ''warranty date'',
            ''warranty_expiry'', ''warranty expiry'']
        then asset(''warranty'' \<mapsto> v)
      else if header \<in> set [''supplier'', ''vendor_name'', ''vendor name'']
        then asset(''supplier'' \<mapsto> v)
      else if header = ''__proto__'' then asset
      else asset(header \<mapsto> v))"

text \<open>
  The body of \<^verbatim>\<open>headers.forEach\<close> in \<^verbatim>\<open>parseCSV\<close>; the state is the row object and
  the flag \<^verbatim>\<open>hasAnyData\<close>. An empty cell and the cell \<^verbatim>\<open>N/A\<close> are skipped.
\<close>

definition asset_cell :: "string list \<Rightarrow> nat \<times> string \<Rightarrow> CSVAsset \<times> bool \<Rightarrow> CSVAsset \<times> bool" where
  "asset_cell values ih st =
     (case ih of (index, header) \<Rightarrow>
        let v = values ! index in
        if v = [] \<or> v = ''N/A'' then st
        else (asset_assign header v (fst st), True))"

text \<open>
  The cells of a data row: trimmed, unquoted, then padded with empty strings up to the
  number of headers (the \<^verbatim>\<open>while\<close> loop) and cut down to it (\<^verbatim>\<open>splice\<close>).
\<close>

definition asset_values :: "nat \<Rightarrow> string \<Rightarrow> string list" where
  "asset_values n l =
     (let values = map (\<lambda>v. strip_quotes (trim v)) (split_on comma l);
          values = values @ replicate (n - length values) [];
          values = (if length values > n then take n values else values)
      in values)"

fun asset_rows :: "string list \<Rightarrow> string list \<Rightarrow> CSVAsset list" where
  "asset_rows headers [] = []"
| "asset_rows headers (l # ls) =
     (if trim l = [] then asset_rows headers ls
      else
        let values = asset_values (length headers) l;
            st = fold (asset_cell values) (enumerate 0 headers) (Map.empty, False) in
        if snd st then fst st # asset_rows headers ls
        else asset_rows headers ls)"

definition parseCSV :: "string \<Rightarrow> csv_error + CSVAsset list" where
  "parseCSV csvContent =
     (let lines = split_on LF csvContent in
      if length lines < 2 then Inl TooFewLines
      else
        let headers = parse_headers (lines ! 0) in
        Inr (asset_rows headers (drop 1 lines)))"

record InsertAsset =
  as_assetTag :: "string option"
  as_name :: "string option"
  as_serialNumber :: string
  as_category :: string
  as_status :: string
  as_condition :: string
  as_model :: "string option"
  as_purchaseDate :: "string option"
  as_manufacturer :: "string option"
  as_purchaseCost :: "string option"
  as_location :: "string option"
  as_knoxId :: "string option"
  as_ipAddress :: "string option"
  as_macAddress :: "string option"
  as_osType :: "string option"
  as_department :: "string option"
  as_notes :: "string option"

definition asset_condition :: "string option \<Rightarrow> string" where
  "asset_condition c =
     (if truthy c \<and> trim (the c) \<noteq> [] then
        (let conditionValue = trim (the c) in
         if toLowerCase conditionValue \<in> set [''bad'', ''poor'', ''damaged''] then ''Bad''
         else if toLowerCase conditionValue \<in> set [''good'', ''excellent'', ''working'']
           then ''Good''
         else conditionValue)
      else ''Good'')"

text \<open>
  \<^verbatim>\<open>convertCSVToAssets\<close>. The constant \<^verbatim>\<open>AssetStatus.AVAILABLE\<close> of the shared schema is
  the parameter \<open>available\<close>.
\<close>

definition convertCSVToAssets :: "string \<Rightarrow> CSVAsset list \<Rightarrow> InsertAsset list" where
  "convertCSVToAssets available csvAssets =
     map (\<lambda>csvAsset.
        \<lparr>as_assetTag = or_null (csvAsset ''assetTag''),
         as_name = or_null (csvAsset ''name''),
         as_serialNumber = or_default (csvAsset ''serialNumber'') [],
         as_category = or_default (csvAsset ''category'') ''Laptop'',
         as_status = or_default (csvAsset ''status'') available,
         as_condition = asset_condition (csvAsset ''condition''),
         as_model = or_null (csvAsset ''model''),
         as_purchaseDate = or_null (csvAsset ''purchaseDate''),
         as_manufacturer = or_null (csvAsset ''manufacturer''),
         as_purchaseCost = or_null (csvAsset ''purchaseCost''),
         as_location = or_null (csvAsset ''location''),
         as_knoxId = or_null (csvAsset ''knoxId''),
         as_ipAddress = or_null (csvAsset ''ipAddress''),
         as_macAddress = or_null (csvAsset ''macAddress''),
         as_osType = or_null (csvAsset ''osType''),
         as_department = or_null (csvAsset ''department''),
         as_notes = or_null (csvAsset ''notes'')\<rparr>) csvAssets"

section \<open>Virtual machines\<close>

record VirtualMachine =
  vm_id :: int
  vm_vmId :: string
  vm_vmName :: string
  vm_vmStatus :: string
  vm_vmIp :: string
  vm_internetAccess :: bool
  vm_vmOs :: string
  vm_vmOsVersion :: string
  vm_hypervisor :: string
  vm_hostname :: string
  vm_hostModel :: string
  vm_hostIp :: string
  vm_hostOs :: string
  vm_rack :: string
  vm_deployedBy :: string
  vm_user :: string
  vm_department :: string
  vm_startDate :: string
  vm_endDate :: string
  vm_jiraTicket :: string
  vm_remarks :: string
  vm_dateDeleted :: "string option"

record NewVirtualMachine =
  nv_vmId :: string
  nv_vmName :: string
  nv_vmStatus :: string
  nv_vmIp :: string
  nv_internetAccess :: bool
  nv_vmOs :: string
  nv_vmOsVersion :: string
  nv_hypervisor :: string
  nv_hostname :: string
  nv_hostModel :: string
  nv_hostIp :: string
  nv_hostOs :: string
  nv_rack :: string
  nv_deployedBy :: string
  nv_user :: string
  nv_department :: string
  nv_startDate :: string
  nv_endDate :: string
  nv_jiraTicket :: string
  nv_remarks :: string
  nv_dateDeleted :: "string option"

record CSVVM =
  cv_vmId :: "string option"
  cv_vmName :: "string option"
  cv_vmStatus :: "string option"
  cv_vmIp :: "string option"
  cv_internetAccess :: "string option"
  cv_vmOs :: "string option"
  cv_vmOsVersion :: "string option"
  cv_hypervisor :: "string option"
  cv_hostname :: "string option"
  cv_hostModel :: "string option"
  cv_hostIp :: "string option"
  cv_hostOs :: "string option"
  cv_rack :: "string option"
  cv_deployedBy :: "string option"
  cv_user :: "string option"
  cv_department :: "string option"
  cv_startDate :: "string option"
  cv_endDate :: "string option"
  cv_jiraTicket :: "string option"
  cv_remarks :: "string option"

definition empty_vm :: CSVVM where
  "empty_vm =
     \<lparr>cv_vmId = None,
      cv_vmName = None,
      cv_vmStatus = None,
      cv_vmIp = None,
      cv_internetAccess = None,
      cv_vmOs = None,
      cv_vmOsVersion = None,
      cv_hypervisor = None,
      cv_hostname = None,
      cv_hostModel = None,
      cv_hostIp = None,
      cv_hostOs = None,
      cv_rack = None,
      cv_deployedBy = None,
      cv_user = None,
      cv_department = None,
      cv_startDate = None,
      cv_endDate = None,
      cv_jiraTicket = None,
      cv_remarks = None\<rparr>"

text \<open>The \<^verbatim>\<open>switch (header)\<close> of \<^verbatim>\<open>parseVMCSV\<close>.\<close>

definition vm_assign :: "string list \<Rightarrow> nat \<times> string \<Rightarrow> CSVVM \<Rightarrow> CSVVM" where
  "vm_assign values ih vm =
     (case ih of (index, header) \<Rightarrow>
        let v = values ! index in
        if header \<in> set [''vmid'', ''vm_id'', ''vm id'']
          then vm\<lparr>cv_vmId := Some v\<rparr>
        else if header \<in> set [''vmname'', ''vm_name'', ''vm name'', ''name'']
          then vm\<lparr>cv_vmName := Some v\<rparr>
        else if header \<in> set [''vmstatus'', ''vm_status'', ''vm status'', ''status'']
          then vm\<lparr>cv_vmStatus := Some v\<rparr>
        else if header \<in> set [''vmip'', ''vm_ip'', ''vm ip'', ''ip'', ''ipaddress'',
              ''ip_address'']
          then vm\<lparr>cv_vmIp := Some v\<rparr>
        else if header \<in> set [''internetaccess'', ''internet_access'', ''internet access'',
              ''internet'']
          then vm\<lparr>cv_internetAccess := Some v\<rparr>
        else if header \<in> set [''vmos'', ''vm_os'', ''vm os'', ''os'', ''operating_system'']
          then vm\<lparr>cv_vmOs := Some v\<rparr>
        else if header \<in> set [''vmosversion'', ''vm_os_version'', ''vm os version'',
              ''os_version'', ''osversion'']
          then vm\<lparr>cv_vmOsVersion := Some v\<rparr>
        else if header \<in> set [''hypervisor'']
          then vm\<lparr>cv_hypervisor := Some v\<rparr>
        else if header \<in> set [''hostname'', ''host_name'', ''host name'']
          then vm\<lparr>cv_hostname := Some v\<rparr>
        else if header \<in> set [''hostmodel'', ''host_model'', ''host model'', ''model'']
          then vm\<lparr>cv_hostModel := Some v\<rparr>
        else if header \<in> set [''hostip'', ''host_ip'', ''host ip'']
          then vm\<lparr>cv_hostIp := Some v\<rparr>
        else if header \<in> set [''hostos'', ''host_os'', ''host os'']
          then vm\<lparr>cv_hostOs := Some v\<rparr>
        else if header \<in> set [''rack'']
          then vm\<lparr>cv_rack := Some v\<rparr>
        else if header \<in> set [''deployedby'', ''deployed_by'', ''deployed by'']
          then vm\<lparr>cv_deployedBy := Some v\<rparr>
        else if header \<in> set [''user'']
          then vm\<lparr>cv_user := Some v\<rparr>
        else if header \<in> set [''department'']
          then vm\<lparr>cv_department := Some v\<rparr>
        else if header \<in> set [''startdate'', ''start_date'', ''start date'']
          then vm\<lparr>cv_startDate := Some v\<rparr>
        else if header \<in> set [''enddate'', ''end_date'', ''end date'']
          then vm\<lparr>cv_endDate := Some v\<rparr>
        else if header \<in> set [''jiraticket'', ''jira_ticket'', ''jira ticket'', ''ticket'']
          then vm\<lparr>cv_jiraTicket := Some v\<rparr>
        else if header \<in> set [''remarks'', ''notes'', ''description'']
          then vm\<lparr>cv_remarks := Some v\<rparr>
        else vm)"

fun vm_rows :: "string list \<Rightarrow> nat \<Rightarrow> string list \<Rightarrow> csv_error + CSVVM list" where
  "vm_rows headers i [] = Inr []"
| "vm_rows headers i (l # ls) =
     (if trim l = [] then vm_rows headers (i + 1) ls
      else
        let values = map trim (split_on comma l) in
        if length values \<noteq> length headers
        then Inl (ColumnCountMismatch (i + 1) (length values) (length headers))
        else
          let vm = fold (vm_assign values) (enumerate 0 headers) empty_vm in
          if \<not> truthy (cv_vmId vm) \<or> \<not> truthy (cv_vmName vm) \<or> \<not> truthy (cv_hypervisor vm)
          then Inl (MissingRequiredField (i + 1) (cv_vmId vm) (cv_vmName vm) (cv_hypervisor vm))
          else (case vm_rows headers (i + 1) ls of
                  Inl e \<Rightarrow> Inl e
                | Inr vms \<Rightarrow> Inr (vm # vms)))"

definition parseVMCSV :: "string \<Rightarrow> csv_error + CSVVM list" where
  "parseVMCSV csvContent =
     (let lines = split_on LF csvContent in
      if length lines < 2 then Inl TooFewLines
      else
        let headers = parse_headers (lines ! 0);
            missingHeaders = filter (\<lambda>header. header \<notin> set headers)
                               [''vmid'', ''vmname'', ''hypervisor''] in
        if length missingHeaders > 0 then Inl (MissingHeaders missingHeaders)
        else (case vm_rows headers 1 (drop 1 lines) of
                Inl e \<Rightarrow> Inl e
              | Inr vms \<Rightarrow> if length vms = 0 then Inl NoValidVMRecords else Inr vms))"

definition vm_internetAccess_of :: "string option \<Rightarrow> bool" where
  "vm_internetAccess_of a =
     (if truthy a then
        (let accessValue = toLowerCase (the a) in
         accessValue = ''true'' \<or> accessValue = ''yes'' \<or> accessValue = ''1'')
      else False)"

definition convertCSVToVMs :: "CSVVM list \<Rightarrow> NewVirtualMachine list" where
  "convertCSVToVMs csvVMs =
     map (\<lambda>csvVM.
        let internetAccess = vm_internetAccess_of (cv_internetAccess csvVM) in
        \<lparr>nv_vmId = or_default (cv_vmId csvVM) ''N/A'',
         nv_vmName = or_default (cv_vmName csvVM) ''N/A'',
         nv_vmStatus = or_default (cv_vmStatus csvVM) ''Provisioning'',
         nv_vmIp = or_default (cv_vmIp csvVM) ''N/A'',
         nv_internetAccess = internetAccess,
         nv_vmOs = or_default (cv_vmOs csvVM) ''N/A'',
         nv_vmOsVersion = or_default (cv_vmOsVersion csvVM) ''N/A'',
         nv_hypervisor = or_default (cv_hypervisor csvVM) ''N/A'',
         nv_hostname = or_default (cv_hostname csvVM) ''N/A'',
         nv_hostModel = or_default (cv_hostModel csvVM) ''N/A'',
         nv_hostIp = or_default (cv_hostIp csvVM) ''N/A'',
         nv_hostOs = or_default (cv_hostOs csvVM) ''N/A'',
         nv_rack = or_default (cv_rack csvVM) ''N/A'',
         nv_deployedBy = or_default (cv_deployedBy csvVM) ''N/A'',
         nv_user = or_default (cv_user csvVM) ''N/A'',
         nv_department = or_default (cv_department csvVM) ''N/A'',
         nv_startDate = or_default (cv_startDate csvVM) ''N/A'',
         nv_endDate = or_default (cv_endDate csvVM) ''N/A'',
         nv_jiraTicket = or_default (cv_jiraTicket csvVM) ''N/A'',
         nv_remarks = or_default (cv_remarks csvVM) ''N/A'',
         nv_dateDeleted = None\<rparr>) csvVMs"

text \<open>\<^verbatim>\<open>convertToCSV\<close>: the export of virtual machines.\<close>

definition vm_export_headers :: "string list" where
  "vm_export_headers =
     [''vmId'', ''vmName'', ''vmStatus'', ''vmIp'', ''internetAccess'', ''vmOs'', ''vmOsVersion'',
      ''hypervisor'', ''hostname'', ''hostModel'', ''hostIp'', ''hostOs'', ''rack'',
      ''deployedBy'', ''user'', ''department'', ''startDate'', ''endDate'', ''jiraTicket'',
      ''remarks'']"

text \<open>\<^verbatim>\<open>vm[header]\<close> for an export header, with the boolean already rendered as a string.\<close>

definition vm_property :: "VirtualMachine \<Rightarrow> string \<Rightarrow> string" where
  "vm_property vm header =
     (if header = ''vmId'' then vm_vmId vm
      else if header = ''vmName'' then vm_vmName vm
      else if header = ''vmStatus'' then vm_vmStatus vm
      else if header = ''vmIp'' then vm_vmIp vm
      else if header = ''internetAccess'' then (if vm_internetAccess vm then ''true'' else ''false'')
      else if header = ''vmOs'' then vm_vmOs vm
      else if header = ''vmOsVersion'' then vm_vmOsVersion vm
      else if header = ''hypervisor'' then vm_hypervisor vm
      else if header = ''hostname'' then vm_hostname vm
      else if header = ''hostModel'' then vm_hostModel vm
      else if header = ''hostIp'' then vm_hostIp vm
      else if header = ''hostOs'' then vm_hostOs vm
      else if header = ''rack'' then vm_rack vm
      else if header = ''deployedBy'' then vm_deployedBy vm
      else if header = ''user'' then vm_user vm
      else if header = ''department'' then vm_department vm
      else if header = ''startDate'' then vm_startDate vm
      else if header = ''endDate'' then vm_endDate vm
      else if header = ''jiraTicket'' then vm_jiraTicket vm
      else if header = ''remarks'' then vm_remarks vm
      else [])"

text \<open>A value holding a comma or a double quote is wrapped in quotes, its quotes doubled.\<close>

definition csv_escape :: "string \<Rightarrow> string" where
  "csv_escape v =
     (if comma \<in> set v \<or> dquote \<in> set v
      then dquote # concat (map (\<lambda>c. if c = dquote then [dquote, dquote] else [c]) v) @ [dquote]
      else v)"

definition vm_row :: "VirtualMachine \<Rightarrow> string" where
  "vm_row vm = join comma (map (\<lambda>header. csv_escape (vm_property vm header)) vm_export_headers)"

definition convertToCSV :: "VirtualMachine list \<Rightarrow> string" where
  "convertToCSV vms =
     (if length vms = 0 then []
      else join LF (join comma vm_export_headers # map vm_row vms))"

section \<open>Predicates used in the statements\<close>



text \<open>Two characters that are the same up to letter case.\<close>

definition same_letter :: "char \<Rightarrow> char \<Rightarrow> bool" where
  "same_letter x y \<longleftrightarrow> lower_char x = lower_char y"

text \<open>
  \<open>c'\<close> is the header cell \<open>c\<close> with the case of some letters changed and whitespace added
  around it.
\<close>

definition header_cell_variant :: "string \<Rightarrow> string \<Rightarrow> bool" where
  "header_cell_variant c c' \<longleftrightarrow>
     (\<exists>pre d post. c' = pre @ d @ post \<and> list_all is_ws pre \<and> list_all is_ws post
        \<and> list_all2 same_letter c d)"

text \<open>The string fields of a virtual machine that the export writes.\<close>

definition vm_strings :: "VirtualMachine \<Rightarrow> string list" where
  "vm_strings vm =
     [vm_vmId vm, vm_vmName vm, vm_vmStatus vm, vm_vmIp vm, vm_vmOs vm, vm_vmOsVersion vm, vm_hypervisor vm, vm_hostname vm, vm_hostModel vm, vm_hostIp vm, vm_hostOs vm, vm_rack vm, vm_deployedBy vm, vm_user vm, vm_department vm, vm_startDate vm, vm_endDate vm, vm_jiraTicket vm, vm_remarks vm]"

text \<open>A field that is not empty and holds no comma, double quote or line feed.\<close>

definition plain_field :: "string \<Rightarrow> bool" where
  "plain_field v \<longleftrightarrow> v \<noteq> [] \<and> comma \<notin> set v \<and> dquote \<notin> set v \<and> LF \<notin> set v"

text \<open>A field with no whitespace at its ends.\<close>

definition trimmed :: "string \<Rightarrow> bool" where
  "trimmed v \<longleftrightarrow> trim v = v"

text \<open>The record without its id and with \<^verbatim>\<open>dateDeleted\<close> null.\<close>

definition without_id :: "VirtualMachine \<Rightarrow> NewVirtualMachine" where
  "without_id vm =
     \<lparr>nv_vmId = vm_vmId vm,
      nv_vmName = vm_vmName vm,
      nv_vmStatus = vm_vmStatus vm,
      nv_vmIp = vm_vmIp vm,
      nv_internetAccess = vm_internetAccess vm,
      nv_vmOs = vm_vmOs vm,
      nv_vmOsVersion = vm_vmOsVersion vm,
      nv_hypervisor = vm_hypervisor vm,
      nv_hostname = vm_hostname vm,
      nv_hostModel = vm_hostModel vm,
      nv_hostIp = vm_hostIp vm,
      nv_hostOs = vm_hostOs vm,
      nv_rack = vm_rack vm,
      nv_deployedBy = vm_deployedBy vm,
      nv_user = vm_user vm,
      nv_department = vm_department vm,
      nv_startDate = vm_startDate vm,
      nv_endDate = vm_endDate vm,
      nv_jiraTicket = vm_jiraTicket vm,
      nv_remarks = vm_remarks vm,
      nv_dateDeleted = None\<rparr>"

text \<open>Export, then parse, then convert.\<close>

definition vm_round_trip :: "VirtualMachine list \<Rightarrow> csv_error + NewVirtualMachine list" where
  "vm_round_trip vms =
     (case parseVMCSV (convertToCSV vms) of
        Inl e \<Rightarrow> Inl e
      | Inr csvVMs \<Rightarrow> Inr (convertCSVToVMs csvVMs))"

text \<open>The cells of an exported row when no value needs quoting, and the row as the
  parser reads it back.\<close>

definition vm_cells :: "VirtualMachine \<Rightarrow> string list" where
  "vm_cells vm =
     [vm_vmId vm,
      vm_vmName vm,
      vm_vmStatus vm,
      vm_vmIp vm,
      (if vm_internetAccess vm then ''true'' else ''false''),
      vm_vmOs vm,
      vm_vmOsVersion vm,
      vm_hypervisor vm,
      vm_hostname vm,
      vm_hostModel vm,
      vm_hostIp vm,
      vm_hostOs vm,
      vm_rack vm,
      vm_deployedBy vm,
      vm_user vm,
      vm_department vm,
      vm_startDate vm,
      vm_endDate vm,
      vm_jiraTicket vm,
      vm_remarks vm]"

definition vm_as_csv :: "VirtualMachine \<Rightarrow> CSVVM" where
  "vm_as_csv vm =
     \<lparr>cv_vmId = Some (vm_vmId vm),
      cv_vmName = Some (vm_vmName vm),
      cv_vmStatus = Some (vm_vmStatus vm),
      cv_vmIp = Some (vm_vmIp vm),
      cv_internetAccess = Some ((if vm_internetAccess vm then ''true'' else ''false'')),
      cv_vmOs = Some (vm_vmOs vm),
      cv_vmOsVersion = Some (vm_vmOsVersion vm),
      cv_hypervisor = Some (vm_hypervisor vm),
      cv_hostname = Some (vm_hostname vm),
      cv_hostModel = Some (vm_hostModel vm),
      cv_hostIp = Some (vm_hostIp vm),
      cv_hostOs = Some (vm_hostOs vm),
      cv_rack = Some (vm_rack vm),
      cv_deployedBy = Some (vm_deployedBy vm),
      cv_user = Some (vm_user vm),
      cv_department = Some (vm_department vm),
      cv_startDate = Some (vm_startDate vm),
      cv_endDate = Some (vm_endDate vm),
      cv_jiraTicket = Some (vm_jiraTicket vm),
      cv_remarks = Some (vm_remarks vm)\<rparr>"

section \<open>Properties of the primitives and of the row loops\<close>

lemma split_on_not_Nil: "split_on sep s \<noteq> []"
  by (induction s) (auto split: list.splits)

lemma component_rows_not_TooFewLines: "component_rows headers i ls \<noteq> Inl TooFewLines"
  by (induction ls arbitrary: i) (auto simp: Let_def split: sum.splits)

lemma accessory_rows_not_TooFewLines: "accessory_rows headers i ls \<noteq> Inl TooFewLines"
  by (induction ls arbitrary: i) (auto simp: Let_def split: sum.splits)

lemma vm_rows_not_TooFewLines: "vm_rows headers i ls \<noteq> Inl TooFewLines"
  by (induction ls arbitrary: i) (auto simp: Let_def split: sum.splits)

lemma parseCSV_TooFewLines: "parseCSV s = Inl TooFewLines \<longleftrightarrow> length (split_on LF s) < 2"
  by (simp add: parseCSV_def Let_def)

lemma parseCSVData_TooFewLines: "parseCSVData s = Inl TooFewLines \<longleftrightarrow> length (split_on LF s) < 2"
  by (simp add: parseCSVData_def Let_def)

lemma parseComponentCSV_TooFewLines:
  "parseComponentCSV s = Inl TooFewLines \<longleftrightarrow> length (split_on LF s) < 2"
  by (simp add: parseComponentCSV_def Let_def component_rows_not_TooFewLines)

lemma parseAccessoryCSV_TooFewLines:
  "parseAccessoryCSV s = Inl TooFewLines \<longleftrightarrow> length (split_on LF s) < 2"
  by (simp add: parseAccessoryCSV_def Let_def accessory_rows_not_TooFewLines)

lemma parseVMCSV_TooFewLines:
  "parseVMCSV s = Inl TooFewLines \<longleftrightarrow> length (split_on LF s) < 2"
  using vm_rows_not_TooFewLines
  by (auto simp: parseVMCSV_def Let_def split: sum.splits)

lemma iam_rows_required:
  "\<forall>a \<in> set (iam_rows headers ls).
      truthy (iam_requestor a) \<and> truthy (iam_knoxId a)
    \<and> truthy (iam_permission a) \<and> truthy (iam_cloudPlatform a)"
  by (induction ls) (auto simp: Let_def)

lemma component_rows_required:
  "component_rows headers i ls = Inr cs \<Longrightarrow>
     \<forall>c \<in> set cs. truthy (cc_name c) \<and> truthy (cc_category c)"
proof (induction ls arbitrary: i cs)
  case Nil
  then show ?case by simp
next
  case (Cons l ls)
  then show ?case
    by (auto simp: Let_def split: if_splits sum.splits)
qed

lemma accessory_rows_required:
  "accessory_rows headers i ls = Inr cs \<Longrightarrow>
     \<forall>c \<in> set cs. truthy (ca_name c) \<and> truthy (ca_category c)"
proof (induction ls arbitrary: i cs)
  case Nil
  then show ?case by simp
next
  case (Cons l ls)
  then show ?case
    by (auto simp: Let_def split: if_splits sum.splits)
qed

lemma vm_rows_required:
  "vm_rows headers i ls = Inr vms \<Longrightarrow>
     \<forall>vm \<in> set vms. truthy (cv_vmId vm) \<and> truthy (cv_vmName vm) \<and> truthy (cv_hypervisor vm)"
proof (induction ls arbitrary: i vms)
  case Nil
  then show ?case by simp
next
  case (Cons l ls)
  then show ?case
    by (auto simp: Let_def split: if_splits sum.splits)
qed

lemma or_default_truthy: "or_default x d = (if truthy x then the x else d)"
  by (cases x) (auto simp: or_default_def)












lemma length_parse_headers: "length (parse_headers h) = length (split_on comma h)"
  by (simp add: parse_headers_def)

lemma component_rows_isl_Cons:
  "isl (component_rows headers (i + 1) ls) \<Longrightarrow> isl (component_rows headers i (x # ls))"
  by (auto simp: Let_def split: sum.splits)

lemma component_rows_mismatch:
  "l \<in> set ls \<Longrightarrow> trim l \<noteq> [] \<Longrightarrow> length (split_on comma l) \<noteq> length headers \<Longrightarrow>
   isl (component_rows headers i ls)"
proof (induction ls arbitrary: i)
  case Nil
  then show ?case by simp
next
  case (Cons x xs)
  show ?case
  proof (cases "l = x")
    case True
    then show ?thesis
      using Cons.prems by (simp add: Let_def)
  next
    case False
    then have "l \<in> set xs"
      using Cons.prems by simp
    then have "isl (component_rows headers (i + 1) xs)"
      using Cons.IH Cons.prems by blast
    then show ?thesis
      by (rule component_rows_isl_Cons)
  qed
qed

lemma accessory_rows_isl_Cons:
  "isl (accessory_rows headers (i + 1) ls) \<Longrightarrow> isl (accessory_rows headers i (x # ls))"
  by (auto simp: Let_def split: sum.splits)

lemma accessory_rows_mismatch:
  "l \<in> set ls \<Longrightarrow> trim l \<noteq> [] \<Longrightarrow> length (split_on comma l) \<noteq> length headers \<Longrightarrow>
   isl (accessory_rows headers i ls)"
proof (induction ls arbitrary: i)
  case Nil
  then show ?case by simp
next
  case (Cons x xs)
  show ?case
  proof (cases "l = x")
    case True
    then show ?thesis
      using Cons.prems by (simp add: Let_def)
  next
    case False
    then have "l \<in> set xs"
      using Cons.prems by simp
    then have "isl (accessory_rows headers (i + 1) xs)"
      using Cons.IH Cons.prems by blast
    then show ?thesis
      by (rule accessory_rows_isl_Cons)
  qed
qed

lemma vm_rows_isl_Cons:
  "isl (vm_rows headers (i + 1) ls) \<Longrightarrow> isl (vm_rows headers i (x # ls))"
  by (auto simp: Let_def split: sum.splits)

lemma vm_rows_mismatch:
  "l \<in> set ls \<Longrightarrow> trim l \<noteq> [] \<Longrightarrow> length (split_on comma l) \<noteq> length headers \<Longrightarrow>
   isl (vm_rows headers i ls)"
proof (induction ls arbitrary: i)
  case Nil
  then show ?case by simp
next
  case (Cons x xs)
  show ?case
  proof (cases "l = x")
    case True
    then show ?thesis
      using Cons.prems by (simp add: Let_def)
  next
    case False
    then have "l \<in> set xs"
      using Cons.prems by simp
    then have "isl (vm_rows headers (i + 1) xs)"
      using Cons.IH Cons.prems by blast
    then show ?thesis
      by (rule vm_rows_isl_Cons)
  qed
qed

lemma component_rows_first_mismatch:
  "\<not> isl (component_rows headers i pre) \<Longrightarrow> trim l \<noteq> [] \<Longrightarrow>
   length (split_on comma l) \<noteq> length headers \<Longrightarrow>
   component_rows headers i (pre @ l # post)
     = Inl (ColumnCountMismatch (i + length pre + 1) (length (split_on comma l)) (length headers))"
  by (induction pre arbitrary: i) (auto simp: Let_def split: sum.splits if_splits)

lemma accessory_rows_first_mismatch:
  "\<not> isl (accessory_rows headers i pre) \<Longrightarrow> trim l \<noteq> [] \<Longrightarrow>
   length (split_on comma l) \<noteq> length headers \<Longrightarrow>
   accessory_rows headers i (pre @ l # post)
     = Inl (ColumnCountMismatch (i + length pre + 1) (length (split_on comma l)) (length headers))"
  by (induction pre arbitrary: i) (auto simp: Let_def split: sum.splits if_splits)

lemma vm_rows_first_mismatch:
  "\<not> isl (vm_rows headers i pre) \<Longrightarrow> trim l \<noteq> [] \<Longrightarrow>
   length (split_on comma l) \<noteq> length headers \<Longrightarrow>
   vm_rows headers i (pre @ l # post)
     = Inl (ColumnCountMismatch (i + length pre + 1) (length (split_on comma l)) (length headers))"
  by (induction pre arbitrary: i) (auto simp: Let_def split: sum.splits if_splits)


lemma lower_char_cases:
  "lower_char x = x \<or> (x \<in> set upper_letters \<and> lower_char x \<in> set lower_letters)"
proof (cases "map_of (zip upper_letters lower_letters) x")
  case None
  then show ?thesis by (simp add: lower_char_def)
next
  case (Some l)
  then have "(x, l) \<in> set (zip upper_letters lower_letters)"
    by (rule map_of_SomeD)
  then have "x \<in> set upper_letters \<and> l \<in> set lower_letters"
    by (auto dest: set_zip_leftD set_zip_rightD)
  then show ?thesis
    using Some by (simp add: lower_char_def)
qed

lemma is_ws_not_letter: "is_ws x \<Longrightarrow> x \<notin> set upper_letters \<and> x \<notin> set lower_letters"
  by (auto simp: is_ws_def upper_letters_def lower_letters_def)

lemma is_ws_lower_char: "is_ws (lower_char x) \<longleftrightarrow> is_ws x"
  using lower_char_cases [of x] is_ws_not_letter [of x] is_ws_not_letter [of "lower_char x"]
  by auto

lemma trim_no_break_space:
  "trim ([CHR 0xA0] @ ''web'' @ [CHR 0xA0, CHR 0x09]) = ''web''" "trim [CHR 0xA0] = []"
  by code_simp+

lemma trim_ws_left: "list_all is_ws pre \<Longrightarrow> trim (pre @ s) = trim s"
  by (simp add: trim_def list_all_iff)

lemma trim_ws_right:
  assumes "list_all is_ws post"
  shows "trim (s @ post) = trim s"
proof (cases "\<forall>x \<in> set s. is_ws x")
  case True
  then have e: "dropWhile is_ws (s @ post) = []" "dropWhile is_ws s = []"
    using assms by (auto simp: list_all_iff)
  show ?thesis
    unfolding trim_def e by simp
next
  case False
  then have e: "dropWhile is_ws (s @ post) = dropWhile is_ws s @ post"
    by (auto simp: dropWhile_append)
  have "dropWhile is_ws (rev post @ rev (dropWhile is_ws s)) = dropWhile is_ws (rev (dropWhile is_ws s))"
    using assms by (intro dropWhile_append2) (simp add: list_all_iff)
  then show ?thesis
    unfolding trim_def e by simp
qed

lemma toLowerCase_trim: "toLowerCase (trim s) = trim (toLowerCase s)"
proof -
  have c: "is_ws \<circ> lower_char = is_ws"
    by (rule ext) (simp add: is_ws_lower_char)
  show ?thesis
    by (simp add: toLowerCase_def trim_def rev_map dropWhile_map c)
qed

lemma same_letter_toLowerCase: "list_all2 same_letter c d \<Longrightarrow> toLowerCase d = toLowerCase c"
  by (induction c d rule: list_all2_induct) (simp_all add: toLowerCase_def same_letter_def)

lemma header_cell_variant_normal:
  assumes "header_cell_variant c c'"
  shows "toLowerCase (trim c') = toLowerCase (trim c)"
proof -
  from assms obtain pre d post where c': "c' = pre @ d @ post"
    and ws: "list_all is_ws pre" "list_all is_ws post"
    and d: "list_all2 same_letter c d"
    unfolding header_cell_variant_def by blast
  have "trim c' = trim d"
    using trim_ws_left [OF ws(1), of "d @ post"] trim_ws_right [OF ws(2), of d] c' by simp
  then show ?thesis
    using same_letter_toLowerCase [OF d] by (simp add: toLowerCase_trim)
qed

lemma header_variant_parse_headers:
  assumes "list_all2 header_cell_variant (split_on comma h) (split_on comma h')"
  shows "parse_headers h' = parse_headers h"
proof -
  have "map (\<lambda>c. toLowerCase (trim c)) ys = map (\<lambda>c. toLowerCase (trim c)) xs"
    if "list_all2 header_cell_variant xs ys" for xs ys
    using that by (induction xs ys rule: list_all2_induct) (simp_all add: header_cell_variant_normal)
  from this [OF assms] show ?thesis
    by (simp add: parse_headers_def)
qed

lemma header_cell_variantI:
  "list_all is_ws pre \<Longrightarrow> list_all is_ws post \<Longrightarrow> list_all2 same_letter c d \<Longrightarrow>
   header_cell_variant c (pre @ d @ post)"
  unfolding header_cell_variant_def by blast



lemma split_on_no_sep: "sep \<notin> set x \<Longrightarrow> split_on sep x = [x]"
  by (induction x) auto

lemma split_on_append_sep:
  "sep \<notin> set x \<Longrightarrow> split_on sep (x @ sep # r) = x # split_on sep r"
  by (induction x) (auto split: list.splits)

lemma split_on_join:
  "xs \<noteq> [] \<Longrightarrow> \<forall>x \<in> set xs. sep \<notin> set x \<Longrightarrow> split_on sep (join sep xs) = xs"
proof (induction sep xs rule: join.induct)
  case (1 sep)
  then show ?case by simp
next
  case (2 sep x)
  then show ?case by (simp add: split_on_no_sep)
next
  case (3 sep x y ys)
  then show ?case by (simp add: split_on_append_sep)
qed

lemma set_join: "set (join sep xs) \<subseteq> insert sep (\<Union>x \<in> set xs. set x)"
  by (induction sep xs rule: join.induct) auto

lemma trim_nonempty:
  assumes "x \<in> set s" "\<not> is_ws x"
  shows "trim s \<noteq> []"
proof -
  have a: "dropWhile is_ws s \<noteq> []"
    using assms by auto
  then have "\<not> is_ws (hd (dropWhile is_ws s))"
    by (rule hd_dropWhile)
  moreover have "hd (dropWhile is_ws s) \<in> set (rev (dropWhile is_ws s))"
    using a by simp
  ultimately have "dropWhile is_ws (rev (dropWhile is_ws s)) \<noteq> []"
    unfolding dropWhile_eq_Nil_conv by blast
  then show ?thesis
    by (simp add: trim_def)
qed

lemma vm_fold_export:
  "fold (vm_assign [a1, a2, a3, a4, a5, a6, a7, a8, a9, a10, a11, a12, a13, a14, a15, a16, a17, a18, a19, a20])
     (enumerate 0 [''vmid'', ''vmname'', ''vmstatus'', ''vmip'', ''internetaccess'', ''vmos'',
        ''vmosversion'', ''hypervisor'', ''hostname'', ''hostmodel'', ''hostip'', ''hostos'', ''rack'',
        ''deployedby'', ''user'', ''department'', ''startdate'', ''enddate'', ''jiraticket'',
        ''remarks'']) empty_vm
   = \<lparr>cv_vmId = Some a1, cv_vmName = Some a2, cv_vmStatus = Some a3, cv_vmIp = Some a4,
      cv_internetAccess = Some a5, cv_vmOs = Some a6, cv_vmOsVersion = Some a7,
      cv_hypervisor = Some a8, cv_hostname = Some a9, cv_hostModel = Some a10,
      cv_hostIp = Some a11, cv_hostOs = Some a12, cv_rack = Some a13, cv_deployedBy = Some a14,
      cv_user = Some a15, cv_department = Some a16, cv_startDate = Some a17,
      cv_endDate = Some a18, cv_jiraTicket = Some a19, cv_remarks = Some a20\<rparr>"
  by (simp add: vm_assign_def empty_vm_def)

lemma export_headers_parsed:
  "parse_headers (join comma vm_export_headers)
   = [''vmid'', ''vmname'', ''vmstatus'', ''vmip'', ''internetaccess'', ''vmos'',
        ''vmosversion'', ''hypervisor'', ''hostname'', ''hostmodel'', ''hostip'', ''hostos'', ''rack'',
        ''deployedby'', ''user'', ''department'', ''startdate'', ''enddate'', ''jiraticket'',
        ''remarks'']"
  by code_simp

lemma export_header_no_LF: "LF \<notin> set (join comma vm_export_headers)"
  by code_simp


lemma bool_cell_facts:
  "trim ''true'' = ''true''" "trim ''false'' = ''false''"
  "comma \<notin> set ''true''" "comma \<notin> set ''false''"
  "dquote \<notin> set ''true''" "dquote \<notin> set ''false''"
  "LF \<notin> set ''true''" "LF \<notin> set ''false''"
  by code_simp+

lemma vm_cells_clean:
  assumes "list_all plain_field (vm_strings vm)" "list_all trimmed (vm_strings vm)"
  shows "\<forall>c \<in> set (vm_cells vm). comma \<notin> set c \<and> dquote \<notin> set c \<and> LF \<notin> set c \<and> trim c = c"
  using assms
  by (simp add: vm_cells_def vm_strings_def plain_field_def trimmed_def bool_cell_facts)

lemma csv_escape_clean: "comma \<notin> set v \<Longrightarrow> dquote \<notin> set v \<Longrightarrow> csv_escape v = v"
  by (simp add: csv_escape_def)

lemma vm_property_cells:
  "map (vm_property vm) vm_export_headers = vm_cells vm"
  by (simp add: vm_export_headers_def vm_property_def vm_cells_def)

lemma vm_row_cells:
  assumes "list_all plain_field (vm_strings vm)" "list_all trimmed (vm_strings vm)"
  shows "vm_row vm = join comma (vm_cells vm)"
proof -
  have "map (\<lambda>header. csv_escape (vm_property vm header)) vm_export_headers
          = map csv_escape (vm_cells vm)"
    unfolding vm_property_cells [of vm, symmetric] by (simp add: comp_def)
  also have "\<dots> = vm_cells vm"
    using vm_cells_clean [OF assms] by (simp add: csv_escape_clean map_idI)
  finally show ?thesis
    by (simp add: vm_row_def)
qed

lemma vm_cells_length: "length (vm_cells vm) = 20"
  by (simp add: vm_cells_def)

lemma vm_row_read:
  assumes "list_all plain_field (vm_strings vm)" "list_all trimmed (vm_strings vm)"
  shows "trim (vm_row vm) \<noteq> []"
    and "map trim (split_on comma (vm_row vm)) = vm_cells vm"
    and "LF \<notin> set (vm_row vm)"
proof -
  note row = vm_row_cells [OF assms]
  note clean = vm_cells_clean [OF assms]
  have ne: "vm_cells vm \<noteq> []"
    by (simp add: vm_cells_def)
  have "split_on comma (vm_row vm) = vm_cells vm"
    unfolding row using ne clean by (intro split_on_join) auto
  then show "map trim (split_on comma (vm_row vm)) = vm_cells vm"
    using clean by (simp add: map_idI)
  have "comma \<in> set (vm_row vm)"
    unfolding row by (simp add: vm_cells_def)
  moreover have "\<not> is_ws comma"
    by (simp add: is_ws_def)
  ultimately show "trim (vm_row vm) \<noteq> []"
    by (rule trim_nonempty)
  show "LF \<notin> set (vm_row vm)"
    unfolding row using set_join [of comma "vm_cells vm"] clean by auto
qed


lemma vm_row_step:
  assumes "list_all plain_field (vm_strings vm)" "list_all trimmed (vm_strings vm)"
  shows "vm_rows (parse_headers (join comma vm_export_headers)) i (vm_row vm # ls)
         = (case vm_rows (parse_headers (join comma vm_export_headers)) (i + 1) ls of
              Inl e \<Rightarrow> Inl e
            | Inr vms \<Rightarrow> Inr (vm_as_csv vm # vms))"
proof -
  note read = vm_row_read [OF assms]
  have f: "fold (vm_assign (vm_cells vm))
             (enumerate 0 (parse_headers (join comma vm_export_headers))) empty_vm = vm_as_csv vm"
    unfolding export_headers_parsed vm_cells_def vm_as_csv_def by (rule vm_fold_export)
  have t: "truthy (cv_vmId (vm_as_csv vm))" "truthy (cv_vmName (vm_as_csv vm))"
      "truthy (cv_hypervisor (vm_as_csv vm))"
    using assms(1) by (simp_all add: vm_as_csv_def vm_strings_def plain_field_def)
  have n: "length (vm_cells vm) = length (parse_headers (join comma vm_export_headers))"
    unfolding export_headers_parsed by (simp add: vm_cells_length)
  show ?thesis
    using read(1) by (simp add: read(2) Let_def f t n del: One_nat_def)
qed

lemma vm_rows_export:
  assumes "\<forall>vm \<in> set vms. list_all plain_field (vm_strings vm) \<and> list_all trimmed (vm_strings vm)"
  shows "vm_rows (parse_headers (join comma vm_export_headers)) i (map vm_row vms)
         = Inr (map vm_as_csv vms)"
  using assms
proof (induction vms arbitrary: i)
  case Nil
  then show ?case by simp
next
  case (Cons vm vms)
  have "vm_rows (parse_headers (join comma vm_export_headers)) (i + 1) (map vm_row vms)
         = Inr (map vm_as_csv vms)"
    using Cons.IH Cons.prems by simp
  then show ?case
    using vm_row_step [of vm i "map vm_row vms"] Cons.prems by simp
qed

lemma or_default_Some: "v \<noteq> [] \<Longrightarrow> or_default (Some v) d = v"
  by (simp add: or_default_def)

lemma internetAccess_read_back:
  "vm_internetAccess_of (Some (if b then ''true'' else ''false'')) = b"
proof -
  have "toLowerCase ''true'' = ''true''" "toLowerCase ''false'' = ''false''"
    by code_simp+
  then show ?thesis
    by (simp add: vm_internetAccess_of_def)
qed

lemma convert_vm_as_csv:
  assumes "list_all plain_field (vm_strings vm)"
  shows "convertCSVToVMs [vm_as_csv vm] = [without_id vm]"
  using assms
  by (simp add: convertCSVToVMs_def vm_as_csv_def without_id_def vm_strings_def plain_field_def
      or_default_Some internetAccess_read_back Let_def)

lemma convert_map_vm_as_csv:
  assumes "\<forall>vm \<in> set vms. list_all plain_field (vm_strings vm)"
  shows "convertCSVToVMs (map vm_as_csv vms) = map without_id vms"
proof -
  have "convertCSVToVMs (xs @ ys) = convertCSVToVMs xs @ convertCSVToVMs ys" for xs ys
    by (simp add: convertCSVToVMs_def)
  then have c: "convertCSVToVMs (x # xs) = convertCSVToVMs [x] @ convertCSVToVMs xs" for x xs
    by (metis append_Cons append_Nil)
  show ?thesis
    using assms
  proof (induction vms)
    case Nil
    then show ?case by (simp add: convertCSVToVMs_def)
  next
    case (Cons vm vms)
    then show ?case
      using c [of "vm_as_csv vm" "map vm_as_csv vms"] convert_vm_as_csv [of vm] by simp
  qed
qed

lemma required_vm_headers_present:
  "filter (\<lambda>header. header \<notin> set (parse_headers (join comma vm_export_headers)))
     [''vmid'', ''vmname'', ''hypervisor''] = []"
  unfolding export_headers_parsed by simp

lemma parseVMCSV_lines:
  assumes "split_on LF s = h # l # ls"
    and "filter (\<lambda>header. header \<notin> set (parse_headers h)) [''vmid'', ''vmname'', ''hypervisor''] = []"
  shows "parseVMCSV s =
           (case vm_rows (parse_headers h) 1 (l # ls) of
              Inl e \<Rightarrow> Inl e
            | Inr vms \<Rightarrow> if length vms = 0 then Inl NoValidVMRecords else Inr vms)"
  unfolding parseVMCSV_def Let_def assms(1)
  by (simp add: assms(2) del: filter.simps)

section \<open>Quoted fields\<close>

text \<open>
  Claim C1. A data field optionally wrapped in double quotes parses to its unquoted
  content: each of the five parsers returns the field value with a single surrounding
  pair of double quotes removed. The asset parser and the IAM parser do so: they read the
  cell \<^verbatim>\<open>"Cable"\<close> as \<^verbatim>\<open>Cable\<close> and \<^verbatim>\<open>"bob"\<close> as \<^verbatim>\<open>bob\<close>. The component, accessory and
  VM parsers do not: on the same kind of row they return the cell with its quotes.
\<close>

theorem quoted_field_kept:
  "parseComponentCSV (''name,category'' @ [LF] @ [dquote] @ ''Cable'' @ [dquote] @ '',Parts'')
     = Inr [\<lparr>cc_name = Some ([dquote] @ ''Cable'' @ [dquote]), cc_category = Some ''Parts'',
              cc_quantity = None, cc_serialNumber = None, cc_manufacturer = None,
              cc_model = None, cc_notes = None\<rparr>]
   \<and> parseAccessoryCSV (''name,category'' @ [LF] @ [dquote] @ ''Cable'' @ [dquote] @ '',Parts'')
     = Inr [\<lparr>ca_name = Some ([dquote] @ ''Cable'' @ [dquote]), ca_category = Some ''Parts'',
              ca_status = None, ca_quantity = None, ca_serialNumber = None,
              ca_manufacturer = None, ca_model = None, ca_notes = None\<rparr>]
   \<and> parseVMCSV (''vmid,vmname,hypervisor'' @ [LF] @ [dquote] @ ''v1'' @ [dquote] @ '',web,kvm'')
     = Inr [empty_vm\<lparr>cv_vmId := Some ([dquote] @ ''v1'' @ [dquote]), cv_vmName := Some ''web'',
                      cv_hypervisor := Some ''kvm''\<rparr>]
   \<and> (case parseCSV (''name,category'' @ [LF] @ [dquote] @ ''Cable'' @ [dquote] @ '',Parts'') of
        Inl e \<Rightarrow> []
      | Inr assets \<Rightarrow> map (\<lambda>asset. (asset ''name'', asset ''category'')) assets)
     = [(Some ''Cable'', Some ''Parts'')]
   \<and> parseCSVData (''requestor,knoxid,permission,cloudplatform'' @ [LF]
                   @ [dquote] @ ''bob'' @ [dquote] @ '',k1,admin,AWS'')
     = Inr [\<lparr>iam_requestor = Some ''bob'', iam_knoxId = Some ''k1'',
              iam_permission = Some ''admin'', iam_durationStartDate = None,
              iam_durationEndDate = None, iam_cloudPlatform = Some ''AWS'',
              iam_projectAccounts = None, iam_approvalId = None, iam_remarks = None,
              iam_status = ''active''\<rparr>]"
  by code_simp

section \<open>Status values of imported records\<close>

text \<open>
  Claim C2. Every record produced by a CSV import has a status in the status set of its
  entity; for an IAM account the set is \<open>statusTypes\<close>: active, expired, extended and
  access_removed. The IAM parser stores the text of the status cell without comparing it
  with that set: a row whose status cell reads \<^verbatim>\<open>bogus\<close> is returned with the status
  \<^verbatim>\<open>bogus\<close>.
\<close>

theorem iam_status_unchecked:
  "parseCSVData (''requestor,knoxid,permission,cloudplatform,status'' @ [LF]
                 @ ''bob,k1,admin,AWS,bogus'')
     = Inr [\<lparr>iam_requestor = Some ''bob'', iam_knoxId = Some ''k1'',
              iam_permission = Some ''admin'', iam_durationStartDate = None,
              iam_durationEndDate = None, iam_cloudPlatform = Some ''AWS'',
              iam_projectAccounts = None, iam_approvalId = None, iam_remarks = None,
              iam_status = ''bogus''\<rparr>]
   \<and> ''bogus'' \<notin> set statusTypes"
  by code_simp

section \<open>The header row\<close>

text \<open>
  Claim C3. A header row is required. When the input, split on the line feed, has fewer
  than two lines, each of the five parsers throws the error "CSV file must contain at
  least a header row and one data row"; when it has two lines or more, no parser throws
  that error.
\<close>

theorem header_row_required:
  "(length (split_on LF s) < 2 \<longrightarrow>
       parseCSV s = Inl TooFewLines \<and> parseComponentCSV s = Inl TooFewLines
     \<and> parseAccessoryCSV s = Inl TooFewLines \<and> parseVMCSV s = Inl TooFewLines
     \<and> parseCSVData s = Inl TooFewLines)
 \<and> (2 \<le> length (split_on LF s) \<longrightarrow>
       parseCSV s \<noteq> Inl TooFewLines \<and> parseComponentCSV s \<noteq> Inl TooFewLines
     \<and> parseAccessoryCSV s \<noteq> Inl TooFewLines \<and> parseVMCSV s \<noteq> Inl TooFewLines
     \<and> parseCSVData s \<noteq> Inl TooFewLines)"
  by (simp add: parseCSV_TooFewLines parseComponentCSV_TooFewLines parseAccessoryCSV_TooFewLines
        parseVMCSV_TooFewLines parseCSVData_TooFewLines)

text \<open>A file with only a header line, and the same file with one data row.\<close>

theorem header_row_required_witness:
  "length (split_on LF ''name,category'') < 2
   \<and> parseCSV ''name,category'' = Inl TooFewLines
   \<and> parseComponentCSV ''name,category'' = Inl TooFewLines
   \<and> parseAccessoryCSV ''name,category'' = Inl TooFewLines
   \<and> parseVMCSV ''name,category'' = Inl TooFewLines
   \<and> parseCSVData ''name,category'' = Inl TooFewLines
   \<and> 2 \<le> length (split_on LF (''name,category'' @ [LF] @ ''Cable,Parts''))
   \<and> parseCSV (''name,category'' @ [LF] @ ''Cable,Parts'') \<noteq> Inl TooFewLines
   \<and> parseComponentCSV (''name,category'' @ [LF] @ ''Cable,Parts'') \<noteq> Inl TooFewLines
   \<and> parseAccessoryCSV (''name,category'' @ [LF] @ ''Cable,Parts'') \<noteq> Inl TooFewLines
   \<and> parseVMCSV (''name,category'' @ [LF] @ ''Cable,Parts'') \<noteq> Inl TooFewLines
   \<and> parseCSVData (''name,category'' @ [LF] @ ''Cable,Parts'') \<noteq> Inl TooFewLines"
proof -
  have one: "length (split_on LF ''name,category'') < 2"
    by code_simp
  have two: "2 \<le> length (split_on LF (''name,category'' @ [LF] @ ''Cable,Parts''))"
    by code_simp
  show ?thesis
    using one two header_row_required [of "''name,category''"]
      header_row_required [of "''name,category'' @ [LF] @ ''Cable,Parts''"]
    by blast
qed

section \<open>Required fields\<close>

text \<open>
  Claim C4. Required fields are present on every import result. Every account returned
  by \<^verbatim>\<open>parseCSVData\<close> has a non-empty requestor, knoxId, permission and cloudPlatform;
  every record returned by \<^verbatim>\<open>parseComponentCSV\<close> or \<^verbatim>\<open>parseAccessoryCSV\<close> has a
  non-empty name and category; every record returned by \<^verbatim>\<open>parseVMCSV\<close> has a non-empty
  vmId, vmName and hypervisor. (\<open>truthy\<close> says that the property is set and not the empty
  string.)
\<close>

theorem required_fields_present:
  "(parseCSVData s = Inr accounts \<longrightarrow>
      (\<forall>a \<in> set accounts.
          truthy (iam_requestor a) \<and> truthy (iam_knoxId a)
        \<and> truthy (iam_permission a) \<and> truthy (iam_cloudPlatform a)))
 \<and> (parseComponentCSV s = Inr components \<longrightarrow>
      (\<forall>c \<in> set components. truthy (cc_name c) \<and> truthy (cc_category c)))
 \<and> (parseAccessoryCSV s = Inr accessories \<longrightarrow>
      (\<forall>c \<in> set accessories. truthy (ca_name c) \<and> truthy (ca_category c)))
 \<and> (parseVMCSV s = Inr vms \<longrightarrow>
      (\<forall>vm \<in> set vms. truthy (cv_vmId vm) \<and> truthy (cv_vmName vm) \<and> truthy (cv_hypervisor vm)))"
proof (intro conjI impI)
  assume "parseCSVData s = Inr accounts"
  then show "\<forall>a \<in> set accounts.
          truthy (iam_requestor a) \<and> truthy (iam_knoxId a)
        \<and> truthy (iam_permission a) \<and> truthy (iam_cloudPlatform a)"
    using iam_rows_required by (auto simp: parseCSVData_def Let_def split: if_splits)
next
  assume "parseComponentCSV s = Inr components"
  then show "\<forall>c \<in> set components. truthy (cc_name c) \<and> truthy (cc_category c)"
    using component_rows_required
    by (auto simp: parseComponentCSV_def Let_def split: if_splits)
next
  assume "parseAccessoryCSV s = Inr accessories"
  then show "\<forall>c \<in> set accessories. truthy (ca_name c) \<and> truthy (ca_category c)"
    using accessory_rows_required
    by (auto simp: parseAccessoryCSV_def Let_def split: if_splits)
next
  assume "parseVMCSV s = Inr vms"
  then show "\<forall>vm \<in> set vms. truthy (cv_vmId vm) \<and> truthy (cv_vmName vm) \<and> truthy (cv_hypervisor vm)"
    using vm_rows_required
    by (auto simp: parseVMCSV_def Let_def split: if_splits sum.splits)
qed

text \<open>
  One file that all four parsers accept. The IAM parser drops its second data row, whose
  permission cell is empty.
\<close>

theorem required_fields_present_witness:
  "(let s = ''name,category,vmid,vmname,hypervisor,requestor,knoxid,permission,cloudplatform'' @ [LF]
            @ ''Cable,Parts,vm-1,web,kvm,bob,k1,admin,AWS'' @ [LF]
            @ ''Dock,Parts,vm-2,db,kvm,eve,k2,,AWS''
    in (\<exists>accounts. parseCSVData s = Inr accounts
          \<and> map iam_requestor accounts = [Some ''bob'']
          \<and> (\<forall>a \<in> set accounts.
                truthy (iam_requestor a) \<and> truthy (iam_knoxId a)
              \<and> truthy (iam_permission a) \<and> truthy (iam_cloudPlatform a)))
     \<and> (\<exists>components. parseComponentCSV s = Inr components
          \<and> map cc_name components = [Some ''Cable'', Some ''Dock'']
          \<and> (\<forall>c \<in> set components. truthy (cc_name c) \<and> truthy (cc_category c)))
     \<and> (\<exists>accessories. parseAccessoryCSV s = Inr accessories
          \<and> map ca_name accessories = [Some ''Cable'', Some ''Dock'']
          \<and> (\<forall>c \<in> set accessories. truthy (ca_name c) \<and> truthy (ca_category c)))
     \<and> (\<exists>vms. parseVMCSV s = Inr vms
          \<and> map cv_vmId vms = [Some ''vm-1'', Some ''vm-2'']
          \<and> (\<forall>vm \<in> set vms.
                truthy (cv_vmId vm) \<and> truthy (cv_vmName vm) \<and> truthy (cv_hypervisor vm))))"
proof -
  define s where "s = ''name,category,vmid,vmname,hypervisor,requestor,knoxid,permission,cloudplatform'' @ [LF]
            @ ''Cable,Parts,vm-1,web,kvm,bob,k1,admin,AWS'' @ [LF]
            @ ''Dock,Parts,vm-2,db,kvm,eve,k2,,AWS''"
  have a: "case parseCSVData s of Inl e \<Rightarrow> False
           | Inr accounts \<Rightarrow> map iam_requestor accounts = [Some ''bob'']"
    unfolding s_def by code_simp
  have c: "case parseComponentCSV s of Inl e \<Rightarrow> False
           | Inr components \<Rightarrow> map cc_name components = [Some ''Cable'', Some ''Dock'']"
    unfolding s_def by code_simp
  have d: "case parseAccessoryCSV s of Inl e \<Rightarrow> False
           | Inr accessories \<Rightarrow> map ca_name accessories = [Some ''Cable'', Some ''Dock'']"
    unfolding s_def by code_simp
  have v: "case parseVMCSV s of Inl e \<Rightarrow> False
           | Inr vms \<Rightarrow> map cv_vmId vms = [Some ''vm-1'', Some ''vm-2'']"
    unfolding s_def by code_simp
  obtain accounts where a': "parseCSVData s = Inr accounts"
      "map iam_requestor accounts = [Some ''bob'']"
    using a by (cases "parseCSVData s") auto
  obtain components where c': "parseComponentCSV s = Inr components"
      "map cc_name components = [Some ''Cable'', Some ''Dock'']"
    using c by (cases "parseComponentCSV s") auto
  obtain accessories where d': "parseAccessoryCSV s = Inr accessories"
      "map ca_name accessories = [Some ''Cable'', Some ''Dock'']"
    using d by (cases "parseAccessoryCSV s") auto
  obtain vms where v': "parseVMCSV s = Inr vms"
      "map cv_vmId vms = [Some ''vm-1'', Some ''vm-2'']"
    using v by (cases "parseVMCSV s") auto
  have "(\<exists>accounts. parseCSVData s = Inr accounts
          \<and> map iam_requestor accounts = [Some ''bob'']
          \<and> (\<forall>a \<in> set accounts.
                truthy (iam_requestor a) \<and> truthy (iam_knoxId a)
              \<and> truthy (iam_permission a) \<and> truthy (iam_cloudPlatform a)))
     \<and> (\<exists>components. parseComponentCSV s = Inr components
          \<and> map cc_name components = [Some ''Cable'', Some ''Dock'']
          \<and> (\<forall>c \<in> set components. truthy (cc_name c) \<and> truthy (cc_category c)))
     \<and> (\<exists>accessories. parseAccessoryCSV s = Inr accessories
          \<and> map ca_name accessories = [Some ''Cable'', Some ''Dock'']
          \<and> (\<forall>c \<in> set accessories. truthy (ca_name c) \<and> truthy (ca_category c)))
     \<and> (\<exists>vms. parseVMCSV s = Inr vms
          \<and> map cv_vmId vms = [Some ''vm-1'', Some ''vm-2'']
          \<and> (\<forall>vm \<in> set vms.
                truthy (cv_vmId vm) \<and> truthy (cv_vmName vm) \<and> truthy (cv_hypervisor vm)))"
    using required_fields_present [of s accounts components accessories vms] a' c' d' v'
    by simp
  then show ?thesis
    unfolding s_def Let_def .
qed

section \<open>Header aliases and letter case\<close>

text \<open>
  Claim C5. Header-alias lookup is case-insensitive in every parser. Let two inputs have
  the same data lines, and let each header cell of the second be the matching header cell
  of the first with the case of some letters changed and whitespace added around it. Then
  each of the five parsers returns the same result on both inputs, an error included.
\<close>

theorem header_case_insensitive:
  assumes "split_on LF s = h # rest" and "split_on LF s' = h' # rest"
    and "list_all2 header_cell_variant (split_on comma h) (split_on comma h')"
  shows "parseCSV s' = parseCSV s \<and> parseComponentCSV s' = parseComponentCSV s
       \<and> parseAccessoryCSV s' = parseAccessoryCSV s \<and> parseVMCSV s' = parseVMCSV s
       \<and> parseCSVData s' = parseCSVData s"
proof -
  have hs: "parse_headers h' = parse_headers h"
    using assms(3) by (rule header_variant_parse_headers)
  show ?thesis
    by (simp add: parseCSV_def parseComponentCSV_def parseAccessoryCSV_def parseVMCSV_def
        parseCSVData_def assms(1,2) hs Let_def)
qed

text \<open>A header row rewritten in other cases, with spaces and a tab around some cells.\<close>

theorem header_case_insensitive_witness:
  "(let rest = [''Cable,Parts,v1,web,kvm''];
        h = ''name,category,vmid,vmname,hypervisor'';
        h' = '' NAME,Category ,VMID,vmName,'' @ [CHR 0x09] @ ''Hypervisor'';
        s = h @ [LF] @ ''Cable,Parts,v1,web,kvm'';
        s' = h' @ [LF] @ ''Cable,Parts,v1,web,kvm''
    in split_on LF s = h # rest \<and> split_on LF s' = h' # rest
     \<and> list_all2 header_cell_variant (split_on comma h) (split_on comma h')
     \<and> parseCSV s' = parseCSV s \<and> parseComponentCSV s' = parseComponentCSV s
     \<and> parseAccessoryCSV s' = parseAccessoryCSV s \<and> parseVMCSV s' = parseVMCSV s
     \<and> parseCSVData s' = parseCSVData s
     \<and> (case parseVMCSV s' of Inl e \<Rightarrow> False
         | Inr vms \<Rightarrow> map cv_vmName vms = [Some ''web'']))"
proof -
  define rest where "rest = [''Cable,Parts,v1,web,kvm'']"
  define h where "h = ''name,category,vmid,vmname,hypervisor''"
  define h' where "h' = '' NAME,Category ,VMID,vmName,'' @ [CHR 0x09] @ ''Hypervisor''"
  define s where "s = h @ [LF] @ ''Cable,Parts,v1,web,kvm''"
  define s' where "s' = h' @ [LF] @ ''Cable,Parts,v1,web,kvm''"
  have l: "split_on LF s = h # rest" "split_on LF s' = h' # rest"
    unfolding s_def s'_def h_def h'_def rest_def by code_simp+
  have c: "split_on comma h = [''name'', ''category'', ''vmid'', ''vmname'', ''hypervisor'']"
    unfolding h_def by code_simp
  have c': "split_on comma h'
      = ['' '' @ ''NAME'' @ [], [] @ ''Category'' @ '' '', [] @ ''VMID'' @ [], [] @ ''vmName'' @ [],
         [CHR 0x09] @ ''Hypervisor'' @ []]"
    unfolding h'_def by code_simp
  have v: "header_cell_variant ''name'' ('' '' @ ''NAME'' @ [])"
      "header_cell_variant ''category'' ([] @ ''Category'' @ '' '')"
      "header_cell_variant ''vmid'' ([] @ ''VMID'' @ [])"
      "header_cell_variant ''vmname'' ([] @ ''vmName'' @ [])"
      "header_cell_variant ''hypervisor'' ([CHR 0x09] @ ''Hypervisor'' @ [])"
    by (rule header_cell_variantI; code_simp)+
  have a: "list_all2 header_cell_variant (split_on comma h) (split_on comma h')"
    unfolding c c' using v by simp
  have e: "case parseVMCSV s' of Inl e \<Rightarrow> False
         | Inr vms \<Rightarrow> map cv_vmName vms = [Some ''web'']"
    unfolding s'_def h'_def by code_simp
  show ?thesis
    unfolding Let_def
    using header_case_insensitive [OF l a] l a e
    unfolding s_def s'_def h_def h'_def rest_def
    by (intro conjI) simp_all
qed

section \<open>Rows of the wrong length in the strict parsers\<close>

text \<open>
  Claim C6, as stated, has \<^verbatim>\<open>parseComponentCSV\<close>, \<^verbatim>\<open>parseAccessoryCSV\<close> and
  \<^verbatim>\<open>parseVMCSV\<close> throw an error naming the line whenever some non-empty data row has a
  value count different from the header count. The required headers are checked before any
  row is read: in the file below the data row has three values under two headers, and the
  error thrown is the one about missing headers, which names no line.
\<close>

theorem column_mismatch_counterexample:
  "split_on LF (''sku,qty'' @ [LF] @ ''a,b,c'') = [''sku,qty'', ''a,b,c'']
   \<and> trim ''a,b,c'' \<noteq> []
   \<and> length (split_on comma ''a,b,c'') = 3
   \<and> length (split_on comma ''sku,qty'') = 2
   \<and> parseComponentCSV (''sku,qty'' @ [LF] @ ''a,b,c'')
       = Inl (MissingHeaders [''name'', ''category''])
   \<and> parseAccessoryCSV (''sku,qty'' @ [LF] @ ''a,b,c'')
       = Inl (MissingHeaders [''name'', ''category''])
   \<and> parseVMCSV (''sku,qty'' @ [LF] @ ''a,b,c'')
       = Inl (MissingHeaders [''vmid'', ''vmname'', ''hypervisor''])"
  by code_simp

text \<open>
  Claim C6, amended. For every input in which some non-empty data row has a comma-split
  value count different from the header count, \<^verbatim>\<open>parseComponentCSV\<close>,
  \<^verbatim>\<open>parseAccessoryCSV\<close> and \<^verbatim>\<open>parseVMCSV\<close> throw an error, and so return no records (a
  result is either the error or the list of records). When the header row has the
  required headers and the rows before that one pass their checks, the error is the
  column-count error naming that line, with the two counts. Here the input has the header
  line \<open>h\<close>, then the lines \<open>pre\<close>, then the row \<open>l\<close>, whose line number is
  \<open>length pre + 2\<close>.
\<close>

theorem column_mismatch_throws:
  assumes lines: "split_on LF s = h # pre @ l # post"
    and nonblank: "trim l \<noteq> []"
    and mismatch: "length (split_on comma l) \<noteq> length (split_on comma h)"
  shows "isl (parseComponentCSV s) \<and> isl (parseAccessoryCSV s) \<and> isl (parseVMCSV s)
    \<and> (set [''name'', ''category''] \<subseteq> set (parse_headers h)
         \<and> \<not> isl (component_rows (parse_headers h) 1 pre) \<longrightarrow>
       parseComponentCSV s =
         Inl (ColumnCountMismatch (length pre + 2) (length (split_on comma l)) (length (split_on comma h))))
    \<and> (set [''name'', ''category''] \<subseteq> set (parse_headers h)
         \<and> \<not> isl (accessory_rows (parse_headers h) 1 pre) \<longrightarrow>
       parseAccessoryCSV s =
         Inl (ColumnCountMismatch (length pre + 2) (length (split_on comma l)) (length (split_on comma h))))
    \<and> (set [''vmid'', ''vmname'', ''hypervisor''] \<subseteq> set (parse_headers h)
         \<and> \<not> isl (vm_rows (parse_headers h) 1 pre) \<longrightarrow>
       parseVMCSV s =
         Inl (ColumnCountMismatch (length pre + 2) (length (split_on comma l)) (length (split_on comma h))))"
proof -
  let ?hs = "parse_headers h"
  have mm: "length (split_on comma l) \<noteq> length ?hs"
    using mismatch by (simp add: length_parse_headers)
  have ex: "l \<in> set (pre @ l # post)"
    by simp
  have c1: "isl (parseComponentCSV s)"
    using component_rows_mismatch [OF ex nonblank mm, of 1]
    by (simp add: parseComponentCSV_def lines Let_def)
  have c2: "isl (parseAccessoryCSV s)"
    using accessory_rows_mismatch [OF ex nonblank mm, of 1]
    by (simp add: parseAccessoryCSV_def lines Let_def)
  have c3: "isl (parseVMCSV s)"
    using vm_rows_mismatch [OF ex nonblank mm, of 1]
    by (auto simp: parseVMCSV_def lines Let_def split: sum.splits)
  have c4: "parseComponentCSV s =
         Inl (ColumnCountMismatch (length pre + 2) (length (split_on comma l)) (length (split_on comma h)))"
    if "set [''name'', ''category''] \<subseteq> set ?hs" "\<not> isl (component_rows ?hs 1 pre)"
    using component_rows_first_mismatch [OF that(2) nonblank mm, of post] that(1)
    by (simp add: parseComponentCSV_def lines Let_def length_parse_headers)
  have c5: "parseAccessoryCSV s =
         Inl (ColumnCountMismatch (length pre + 2) (length (split_on comma l)) (length (split_on comma h)))"
    if "set [''name'', ''category''] \<subseteq> set ?hs" "\<not> isl (accessory_rows ?hs 1 pre)"
    using accessory_rows_first_mismatch [OF that(2) nonblank mm, of post] that(1)
    by (simp add: parseAccessoryCSV_def lines Let_def length_parse_headers)
  have c6: "parseVMCSV s =
         Inl (ColumnCountMismatch (length pre + 2) (length (split_on comma l)) (length (split_on comma h)))"
    if "set [''vmid'', ''vmname'', ''hypervisor''] \<subseteq> set ?hs" "\<not> isl (vm_rows ?hs 1 pre)"
    using vm_rows_first_mismatch [OF that(2) nonblank mm, of post] that(1)
    by (simp add: parseVMCSV_def lines Let_def length_parse_headers)
  from c1 c2 c3 c4 c5 c6 show ?thesis by blast
qed

text \<open>A file whose third line has three values under five headers.\<close>

theorem column_mismatch_throws_witness:
  "(let h = ''name,category,vmid,vmname,hypervisor'';
        pre = [''Cable,Parts,v1,web,kvm''];
        l = ''Dock,Parts,v2'';
        s = h @ [LF] @ ''Cable,Parts,v1,web,kvm'' @ [LF] @ l
    in split_on LF s = h # pre @ l # []
     \<and> trim l \<noteq> []
     \<and> length (split_on comma l) \<noteq> length (split_on comma h)
     \<and> set [''name'', ''category''] \<subseteq> set (parse_headers h)
     \<and> set [''vmid'', ''vmname'', ''hypervisor''] \<subseteq> set (parse_headers h)
     \<and> \<not> isl (component_rows (parse_headers h) 1 pre)
     \<and> \<not> isl (accessory_rows (parse_headers h) 1 pre)
     \<and> \<not> isl (vm_rows (parse_headers h) 1 pre)
     \<and> parseComponentCSV s = Inl (ColumnCountMismatch 3 3 5)
     \<and> parseAccessoryCSV s = Inl (ColumnCountMismatch 3 3 5)
     \<and> parseVMCSV s = Inl (ColumnCountMismatch 3 3 5))"
proof -
  define h where "h = ''name,category,vmid,vmname,hypervisor''"
  define pre where "pre = [''Cable,Parts,v1,web,kvm'']"
  define l where "l = ''Dock,Parts,v2''"
  define s where "s = h @ [LF] @ ''Cable,Parts,v1,web,kvm'' @ [LF] @ l"
  have lines: "split_on LF s = h # pre @ l # []"
    unfolding s_def h_def pre_def l_def by code_simp
  have nonblank: "trim l \<noteq> []"
    unfolding l_def by code_simp
  have n: "length (split_on comma l) = 3" "length (split_on comma h) = 5" "length pre + 2 = 3"
    unfolding l_def h_def pre_def by code_simp+
  have mismatch: "length (split_on comma l) \<noteq> length (split_on comma h)"
    using n by simp
  have hs: "set [''name'', ''category''] \<subseteq> set (parse_headers h)"
      "set [''vmid'', ''vmname'', ''hypervisor''] \<subseteq> set (parse_headers h)"
    unfolding h_def by code_simp+
  have ok: "\<not> isl (component_rows (parse_headers h) 1 pre)"
      "\<not> isl (accessory_rows (parse_headers h) 1 pre)"
      "\<not> isl (vm_rows (parse_headers h) 1 pre)"
    unfolding h_def pre_def by code_simp+
  have "parseComponentCSV s = Inl (ColumnCountMismatch 3 3 5)
      \<and> parseAccessoryCSV s = Inl (ColumnCountMismatch 3 3 5)
      \<and> parseVMCSV s = Inl (ColumnCountMismatch 3 3 5)"
    using column_mismatch_throws [OF lines nonblank mismatch] hs ok n by simp
  then show ?thesis
    using lines nonblank mismatch hs ok
    unfolding Let_def s_def h_def pre_def l_def by simp
qed

section \<open>Defaults of the converters\<close>

text \<open>
  Claim C7, as stated, has \<^verbatim>\<open>convertCSVToVMs\<close> replace every missing optional string
  field with \<^verbatim>\<open>N/A\<close>. The status of a virtual machine is such a field, and a record
  without it is given the status \<^verbatim>\<open>Provisioning\<close>.
\<close>

theorem vm_status_default_counterexample:
  "cv_vmStatus (empty_vm\<lparr>cv_vmId := Some ''vm-1'', cv_vmName := Some ''web'', cv_hypervisor := Some ''kvm''\<rparr>) = None
   \<and> map nv_vmStatus
        (convertCSVToVMs
           [empty_vm\<lparr>cv_vmId := Some ''vm-1'', cv_vmName := Some ''web'', cv_hypervisor := Some ''kvm''\<rparr>])
       = [''Provisioning'']
   \<and> ''Provisioning'' \<noteq> ''N/A''"
  by (simp add: convertCSVToVMs_def empty_vm_def or_default_def)

text \<open>
  Claim C7, amended. \<^verbatim>\<open>convertCSVToComponents\<close> and \<^verbatim>\<open>convertCSVToAccessories\<close> set
  quantity to \<^verbatim>\<open>parseInt\<close> of the quantity string when it is present and not empty, and
  to 1 otherwise. \<^verbatim>\<open>convertCSVToVMs\<close> replaces a missing (or empty) string field with
  \<^verbatim>\<open>N/A\<close>, except for vmStatus, whose default is \<^verbatim>\<open>Provisioning\<close>, and internetAccess,
  which becomes false. \<^verbatim>\<open>convertCSVToAssets\<close> defaults category to \<^verbatim>\<open>Laptop\<close>, status
  to \<^verbatim>\<open>AssetStatus.AVAILABLE\<close> and condition to \<^verbatim>\<open>Good\<close>.
\<close>

theorem convert_defaults:
  fixes parseInt :: "string \<Rightarrow> 'n::one"
  shows
  "map ic_quantity (convertCSVToComponents parseInt components)
     = map (\<lambda>c. if truthy (cc_quantity c) then parseInt (the (cc_quantity c)) else 1) components
 \<and> map ia_quantity (convertCSVToAccessories parseInt accessories)
     = map (\<lambda>c. if truthy (ca_quantity c) then parseInt (the (ca_quantity c)) else 1) accessories
 \<and> map (\<lambda>r. [nv_vmId r, nv_vmName r, nv_vmIp r, nv_vmOs r, nv_vmOsVersion r, nv_hypervisor r,
               nv_hostname r, nv_hostModel r, nv_hostIp r, nv_hostOs r, nv_rack r,
               nv_deployedBy r, nv_user r, nv_department r, nv_startDate r, nv_endDate r,
               nv_jiraTicket r, nv_remarks r]) (convertCSVToVMs vms)
     = map (\<lambda>v. map (\<lambda>x. if truthy x then the x else ''N/A'')
              [cv_vmId v, cv_vmName v, cv_vmIp v, cv_vmOs v, cv_vmOsVersion v, cv_hypervisor v,
               cv_hostname v, cv_hostModel v, cv_hostIp v, cv_hostOs v, cv_rack v,
               cv_deployedBy v, cv_user v, cv_department v, cv_startDate v, cv_endDate v,
               cv_jiraTicket v, cv_remarks v]) vms
 \<and> map nv_vmStatus (convertCSVToVMs vms)
     = map (\<lambda>v. if truthy (cv_vmStatus v) then the (cv_vmStatus v) else ''Provisioning'') vms
 \<and> map nv_internetAccess (convertCSVToVMs vms)
     = map (\<lambda>v. truthy (cv_internetAccess v) \<and> vm_internetAccess_of (cv_internetAccess v)) vms
 \<and> map as_category (convertCSVToAssets available assets)
     = map (\<lambda>a. if truthy (a ''category'') then the (a ''category'') else ''Laptop'') assets
 \<and> map as_status (convertCSVToAssets available assets)
     = map (\<lambda>a. if truthy (a ''status'') then the (a ''status'') else available) assets
 \<and> map as_condition (convertCSVToAssets available assets)
     = map (\<lambda>a. if truthy (a ''condition'') \<and> trim (the (a ''condition'')) \<noteq> []
                 then asset_condition (a ''condition'') else ''Good'') assets"
  by (simp add: convertCSVToComponents_def convertCSVToAccessories_def convertCSVToVMs_def
      convertCSVToAssets_def or_default_truthy Let_def vm_internetAccess_of_def asset_condition_def)

theorem convert_defaults_witness:
  "map ic_quantity (convertCSVToComponents (\<lambda>q. if q = ''3'' then 3 else (0::int))
      [empty_component\<lparr>cc_quantity := Some ''3''\<rparr>, empty_component]) = [3, 1]
 \<and> map (\<lambda>r. [nv_vmId r, nv_vmName r, nv_vmIp r, nv_vmOs r, nv_vmOsVersion r, nv_hypervisor r,
               nv_hostname r, nv_hostModel r, nv_hostIp r, nv_hostOs r, nv_rack r,
               nv_deployedBy r, nv_user r, nv_department r, nv_startDate r, nv_endDate r,
               nv_jiraTicket r, nv_remarks r])
      (convertCSVToVMs [empty_vm\<lparr>cv_hostname := Some ''h1''\<rparr>, empty_vm])
      = [[''N/A'', ''N/A'', ''N/A'', ''N/A'', ''N/A'', ''N/A'', ''h1'', ''N/A'', ''N/A'', ''N/A'',
          ''N/A'', ''N/A'', ''N/A'', ''N/A'', ''N/A'', ''N/A'', ''N/A'', ''N/A''],
         [''N/A'', ''N/A'', ''N/A'', ''N/A'', ''N/A'', ''N/A'', ''N/A'', ''N/A'', ''N/A'', ''N/A'',
          ''N/A'', ''N/A'', ''N/A'', ''N/A'', ''N/A'', ''N/A'', ''N/A'', ''N/A'']]
 \<and> map nv_vmStatus (convertCSVToVMs [empty_vm\<lparr>cv_hostname := Some ''h1''\<rparr>, empty_vm])
      = [''Provisioning'', ''Provisioning'']
 \<and> map as_category (convertCSVToAssets ''available'' [Map.empty, [''category'' \<mapsto> ''Phone'']])
      = [''Laptop'', ''Phone'']
 \<and> map as_status (convertCSVToAssets ''available'' [Map.empty, [''category'' \<mapsto> ''Phone'']])
      = [''available'', ''available'']
 \<and> map as_condition (convertCSVToAssets ''available'' [Map.empty, [''category'' \<mapsto> ''Phone'']])
      = [''Good'', ''Good'']"
  using convert_defaults [of "\<lambda>q. if q = ''3'' then 3 else (0::int)"
      "[empty_component\<lparr>cc_quantity := Some ''3''\<rparr>, empty_component]" "[]"
      "[empty_vm\<lparr>cv_hostname := Some ''h1''\<rparr>, empty_vm]" "''available''"
      "[Map.empty, [''category'' \<mapsto> ''Phone'']]"]
  by (simp add: empty_component_def empty_vm_def)

section \<open>String booleans\<close>

text \<open>
  Claim C8. For every \<^verbatim>\<open>CSVVM\<close> record, \<^verbatim>\<open>convertCSVToVMs\<close> sets internetAccess to true
  if and only if the internetAccess string is present and its lowercased value is exactly
  \<^verbatim>\<open>true\<close>, \<^verbatim>\<open>yes\<close> or \<^verbatim>\<open>1\<close>; a missing field or any other value yields false.
\<close>

theorem internet_access_coercion:
  "map nv_internetAccess (convertCSVToVMs csvVMs) =
     map (\<lambda>csvVM. \<exists>v. cv_internetAccess csvVM = Some v
                     \<and> (toLowerCase v = ''true'' \<or> toLowerCase v = ''yes'' \<or> toLowerCase v = ''1''))
       csvVMs"
proof -
  have "vm_internetAccess_of a \<longleftrightarrow>
          (\<exists>v. a = Some v \<and> (toLowerCase v = ''true'' \<or> toLowerCase v = ''yes'' \<or> toLowerCase v = ''1''))"
    for a
    by (cases a) (auto simp: vm_internetAccess_of_def toLowerCase_def)
  then show ?thesis
    by (simp add: convertCSVToVMs_def Let_def)
qed

theorem internet_access_coercion_witness:
  "map nv_internetAccess
     (convertCSVToVMs
        [empty_vm\<lparr>cv_internetAccess := Some ''Yes''\<rparr>,
         empty_vm\<lparr>cv_internetAccess := Some ''TRUE''\<rparr>,
         empty_vm\<lparr>cv_internetAccess := Some ''1''\<rparr>,
         empty_vm\<lparr>cv_internetAccess := Some ''on''\<rparr>,
         empty_vm\<lparr>cv_internetAccess := Some []\<rparr>,
         empty_vm])
   = [True, True, True, False, False, False]"
proof -
  have l: "toLowerCase ''Yes'' = ''yes''" "toLowerCase ''TRUE'' = ''true''"
    "toLowerCase ''1'' = ''1''" "toLowerCase ''on'' = ''on''" "toLowerCase [] = []"
    by code_simp+
  show ?thesis
    using internet_access_coercion [of
        "[empty_vm\<lparr>cv_internetAccess := Some ''Yes''\<rparr>,
          empty_vm\<lparr>cv_internetAccess := Some ''TRUE''\<rparr>,
          empty_vm\<lparr>cv_internetAccess := Some ''1''\<rparr>,
          empty_vm\<lparr>cv_internetAccess := Some ''on''\<rparr>,
          empty_vm\<lparr>cv_internetAccess := Some []\<rparr>,
          empty_vm]"]
    by (simp add: l empty_vm_def)
qed

section \<open>Export and import of virtual machines\<close>

text \<open>
  Claim C9, as stated, has the export followed by the import return every record whose
  string fields are non-empty and free of commas, double quotes and line feeds. The
  parser trims every cell, so a field that begins or ends with whitespace does not come
  back: the name \<^verbatim>\<open> web\<close>, with a leading space, is read back as \<^verbatim>\<open>web\<close>.
\<close>

theorem vm_round_trip_counterexample:
  "list_all plain_field
     (vm_strings
        \<lparr>vm_id = 1, vm_vmId = ''vm-1'', vm_vmName = '' web'', vm_vmStatus = ''Running'',
            vm_vmIp = ''10.0.0.5'', vm_internetAccess = True, vm_vmOs = ''Ubuntu'',
            vm_vmOsVersion = ''22.04'', vm_hypervisor = ''kvm'', vm_hostname = ''host-1'',
            vm_hostModel = ''R740'', vm_hostIp = ''10.0.0.1'', vm_hostOs = ''ESXi'',
            vm_rack = ''A1'', vm_deployedBy = ''alice'', vm_user = ''bob'',
            vm_department = ''IT'', vm_startDate = ''2024-01-01'', vm_endDate = ''2024-12-31'',
            vm_jiraTicket = ''OPS-1'', vm_remarks = ''first machine'', vm_dateDeleted = None\<rparr>)
   \<and> vm_round_trip
        [\<lparr>vm_id = 1, vm_vmId = ''vm-1'', vm_vmName = '' web'', vm_vmStatus = ''Running'',
            vm_vmIp = ''10.0.0.5'', vm_internetAccess = True, vm_vmOs = ''Ubuntu'',
            vm_vmOsVersion = ''22.04'', vm_hypervisor = ''kvm'', vm_hostname = ''host-1'',
            vm_hostModel = ''R740'', vm_hostIp = ''10.0.0.1'', vm_hostOs = ''ESXi'',
            vm_rack = ''A1'', vm_deployedBy = ''alice'', vm_user = ''bob'',
            vm_department = ''IT'', vm_startDate = ''2024-01-01'', vm_endDate = ''2024-12-31'',
            vm_jiraTicket = ''OPS-1'', vm_remarks = ''first machine'', vm_dateDeleted = None\<rparr>]
     = Inr [\<lparr>nv_vmId = ''vm-1'', nv_vmName = ''web'', nv_vmStatus = ''Running'',
         nv_vmIp = ''10.0.0.5'', nv_internetAccess = True, nv_vmOs = ''Ubuntu'',
         nv_vmOsVersion = ''22.04'', nv_hypervisor = ''kvm'', nv_hostname = ''host-1'',
         nv_hostModel = ''R740'', nv_hostIp = ''10.0.0.1'', nv_hostOs = ''ESXi'',
         nv_rack = ''A1'', nv_deployedBy = ''alice'', nv_user = ''bob'',
         nv_department = ''IT'', nv_startDate = ''2024-01-01'', nv_endDate = ''2024-12-31'',
         nv_jiraTicket = ''OPS-1'', nv_remarks = ''first machine'', nv_dateDeleted = None\<rparr>]
   \<and> nv_vmName
        (without_id
           \<lparr>vm_id = 1, vm_vmId = ''vm-1'', vm_vmName = '' web'', vm_vmStatus = ''Running'',
            vm_vmIp = ''10.0.0.5'', vm_internetAccess = True, vm_vmOs = ''Ubuntu'',
            vm_vmOsVersion = ''22.04'', vm_hypervisor = ''kvm'', vm_hostname = ''host-1'',
            vm_hostModel = ''R740'', vm_hostIp = ''10.0.0.1'', vm_hostOs = ''ESXi'',
            vm_rack = ''A1'', vm_deployedBy = ''alice'', vm_user = ''bob'',
            vm_department = ''IT'', vm_startDate = ''2024-01-01'', vm_endDate = ''2024-12-31'',
            vm_jiraTicket = ''OPS-1'', vm_remarks = ''first machine'', vm_dateDeleted = None\<rparr>) = '' web''"
  by code_simp

text \<open>
  Claim C9, amended. For every non-empty list of \<^verbatim>\<open>VirtualMachine\<close> records whose string
  fields are all non-empty, contain no comma, double quote or line feed, and have no
  whitespace at either end, applying \<^verbatim>\<open>convertCSVToVMs\<close> to \<^verbatim>\<open>parseVMCSV\<close> of
  \<^verbatim>\<open>convertToCSV\<close> of the list returns the original records, field by field, without
  the id and with \<^verbatim>\<open>dateDeleted\<close> null; internetAccess comes back as the original boolean.
\<close>

theorem vm_export_import_round_trip:
  assumes "vms \<noteq> []"
    and "\<forall>vm \<in> set vms. list_all plain_field (vm_strings vm) \<and> list_all trimmed (vm_strings vm)"
  shows "vm_round_trip vms = Inr (map without_id vms)"
proof -
  let ?hdr = "join comma vm_export_headers"
  obtain v vs where vms: "vms = v # vs"
    using assms(1) by (cases vms) auto
  have csv: "convertToCSV vms = join LF (?hdr # map vm_row vms)"
    using assms(1) by (simp add: convertToCSV_def)
  have "\<forall>x \<in> set (?hdr # map vm_row vms). LF \<notin> set x"
    using export_header_no_LF vm_row_read(3) assms(2) by auto
  then have "split_on LF (convertToCSV vms) = ?hdr # map vm_row vms"
    unfolding csv by (intro split_on_join) simp_all
  then have lines: "split_on LF (convertToCSV vms) = ?hdr # vm_row v # map vm_row vs"
    by (simp add: vms)
  have rows: "vm_rows (parse_headers ?hdr) 1 (vm_row v # map vm_row vs) = Inr (map vm_as_csv vms)"
    using vm_rows_export [OF assms(2), of 1] by (simp add: vms)
  have "parseVMCSV (convertToCSV vms) = Inr (map vm_as_csv vms)"
    unfolding parseVMCSV_lines [OF lines required_vm_headers_present] rows
    using assms(1) by simp
  then show ?thesis
    using convert_map_vm_as_csv [of vms] assms(2) by (simp add: vm_round_trip_def)
qed

theorem vm_export_import_round_trip_witness:
  "[\<lparr>vm_id = 1, vm_vmId = ''vm-1'', vm_vmName = ''web'', vm_vmStatus = ''Running'',
         vm_vmIp = ''10.0.0.5'', vm_internetAccess = True, vm_vmOs = ''Ubuntu'',
         vm_vmOsVersion = ''22.04'', vm_hypervisor = ''kvm'', vm_hostname = ''host-1'',
         vm_hostModel = ''R740'', vm_hostIp = ''10.0.0.1'', vm_hostOs = ''ESXi'',
         vm_rack = ''A1'', vm_deployedBy = ''alice'', vm_user = ''bob'',
         vm_department = ''IT'', vm_startDate = ''2024-01-01'', vm_endDate = ''2024-12-31'',
         vm_jiraTicket = ''OPS-1'', vm_remarks = ''first machine'',
         vm_dateDeleted = Some ''2025-01-01''\<rparr>,
    \<lparr>vm_id = 2, vm_vmId = ''vm-2'', vm_vmName = ''db'', vm_vmStatus = ''Running'',
         vm_vmIp = ''10.0.0.5'', vm_internetAccess = False, vm_vmOs = ''Ubuntu'',
         vm_vmOsVersion = ''22.04'', vm_hypervisor = ''kvm'', vm_hostname = ''host-1'',
         vm_hostModel = ''R740'', vm_hostIp = ''10.0.0.1'', vm_hostOs = ''ESXi'',
         vm_rack = ''A1'', vm_deployedBy = ''alice'', vm_user = ''bob'',
         vm_department = ''IT'', vm_startDate = ''2024-01-01'', vm_endDate = ''2024-12-31'',
         vm_jiraTicket = ''OPS-1'', vm_remarks = ''second'', vm_dateDeleted = None\<rparr>] \<noteq> []
   \<and> (list_all (\<lambda>vm. list_all plain_field (vm_strings vm) \<and> list_all trimmed (vm_strings vm))
         [\<lparr>vm_id = 1, vm_vmId = ''vm-1'', vm_vmName = ''web'', vm_vmStatus = ''Running'',
         vm_vmIp = ''10.0.0.5'', vm_internetAccess = True, vm_vmOs = ''Ubuntu'',
         vm_vmOsVersion = ''22.04'', vm_hypervisor = ''kvm'', vm_hostname = ''host-1'',
         vm_hostModel = ''R740'', vm_hostIp = ''10.0.0.1'', vm_hostOs = ''ESXi'',
         vm_rack = ''A1'', vm_deployedBy = ''alice'', vm_user = ''bob'',
         vm_department = ''IT'', vm_startDate = ''2024-01-01'', vm_endDate = ''2024-12-31'',
         vm_jiraTicket = ''OPS-1'', vm_remarks = ''first machine'',
         vm_dateDeleted = Some ''2025-01-01''\<rparr>,
                   \<lparr>vm_id = 2, vm_vmId = ''vm-2'', vm_vmName = ''db'', vm_vmStatus = ''Running'',
         vm_vmIp = ''10.0.0.5'', vm_internetAccess = False, vm_vmOs = ''Ubuntu'',
         vm_vmOsVersion = ''22.04'', vm_hypervisor = ''kvm'', vm_hostname = ''host-1'',
         vm_hostModel = ''R740'', vm_hostIp = ''10.0.0.1'', vm_hostOs = ''ESXi'',
         vm_rack = ''A1'', vm_deployedBy = ''alice'', vm_user = ''bob'',
         vm_department = ''IT'', vm_startDate = ''2024-01-01'', vm_endDate = ''2024-12-31'',
         vm_jiraTicket = ''OPS-1'', vm_remarks = ''second'', vm_dateDeleted = None\<rparr>])
   \<and> vm_round_trip
        [\<lparr>vm_id = 1, vm_vmId = ''vm-1'', vm_vmName = ''web'', vm_vmStatus = ''Running'',
         vm_vmIp = ''10.0.0.5'', vm_internetAccess = True, vm_vmOs = ''Ubuntu'',
         vm_vmOsVersion = ''22.04'', vm_hypervisor = ''kvm'', vm_hostname = ''host-1'',
         vm_hostModel = ''R740'', vm_hostIp = ''10.0.0.1'', vm_hostOs = ''ESXi'',
         vm_rack = ''A1'', vm_deployedBy = ''alice'', vm_user = ''bob'',
         vm_department = ''IT'', vm_startDate = ''2024-01-01'', vm_endDate = ''2024-12-31'',
         vm_jiraTicket = ''OPS-1'', vm_remarks = ''first machine'',
         vm_dateDeleted = Some ''2025-01-01''\<rparr>,
         \<lparr>vm_id = 2, vm_vmId = ''vm-2'', vm_vmName = ''db'', vm_vmStatus = ''Running'',
         vm_vmIp = ''10.0.0.5'', vm_internetAccess = False, vm_vmOs = ''Ubuntu'',
         vm_vmOsVersion = ''22.04'', vm_hypervisor = ''kvm'', vm_hostname = ''host-1'',
         vm_hostModel = ''R740'', vm_hostIp = ''10.0.0.1'', vm_hostOs = ''ESXi'',
         vm_rack = ''A1'', vm_deployedBy = ''alice'', vm_user = ''bob'',
         vm_department = ''IT'', vm_startDate = ''2024-01-01'', vm_endDate = ''2024-12-31'',
         vm_jiraTicket = ''OPS-1'', vm_remarks = ''second'', vm_dateDeleted = None\<rparr>]
     = Inr [\<lparr>nv_vmId = ''vm-1'', nv_vmName = ''web'', nv_vmStatus = ''Running'',
         nv_vmIp = ''10.0.0.5'', nv_internetAccess = True, nv_vmOs = ''Ubuntu'',
         nv_vmOsVersion = ''22.04'', nv_hypervisor = ''kvm'', nv_hostname = ''host-1'',
         nv_hostModel = ''R740'', nv_hostIp = ''10.0.0.1'', nv_hostOs = ''ESXi'',
         nv_rack = ''A1'', nv_deployedBy = ''alice'', nv_user = ''bob'',
         nv_department = ''IT'', nv_startDate = ''2024-01-01'', nv_endDate = ''2024-12-31'',
         nv_jiraTicket = ''OPS-1'', nv_remarks = ''first machine'', nv_dateDeleted = None\<rparr>,
            \<lparr>nv_vmId = ''vm-2'', nv_vmName = ''db'', nv_vmStatus = ''Running'',
         nv_vmIp = ''10.0.0.5'', nv_internetAccess = False, nv_vmOs = ''Ubuntu'',
         nv_vmOsVersion = ''22.04'', nv_hypervisor = ''kvm'', nv_hostname = ''host-1'',
         nv_hostModel = ''R740'', nv_hostIp = ''10.0.0.1'', nv_hostOs = ''ESXi'',
         nv_rack = ''A1'', nv_deployedBy = ''alice'', nv_user = ''bob'',
         nv_department = ''IT'', nv_startDate = ''2024-01-01'', nv_endDate = ''2024-12-31'',
         nv_jiraTicket = ''OPS-1'', nv_remarks = ''second'', nv_dateDeleted = None\<rparr>]"
proof -
  define a where "a = \<lparr>vm_id = 1, vm_vmId = ''vm-1'', vm_vmName = ''web'', vm_vmStatus = ''Running'',
         vm_vmIp = ''10.0.0.5'', vm_internetAccess = True, vm_vmOs = ''Ubuntu'',
         vm_vmOsVersion = ''22.04'', vm_hypervisor = ''kvm'', vm_hostname = ''host-1'',
         vm_hostModel = ''R740'', vm_hostIp = ''10.0.0.1'', vm_hostOs = ''ESXi'',
         vm_rack = ''A1'', vm_deployedBy = ''alice'', vm_user = ''bob'',
         vm_department = ''IT'', vm_startDate = ''2024-01-01'', vm_endDate = ''2024-12-31'',
         vm_jiraTicket = ''OPS-1'', vm_remarks = ''first machine'',
         vm_dateDeleted = Some ''2025-01-01''\<rparr>"
  define b where "b = \<lparr>vm_id = 2, vm_vmId = ''vm-2'', vm_vmName = ''db'', vm_vmStatus = ''Running'',
         vm_vmIp = ''10.0.0.5'', vm_internetAccess = False, vm_vmOs = ''Ubuntu'',
         vm_vmOsVersion = ''22.04'', vm_hypervisor = ''kvm'', vm_hostname = ''host-1'',
         vm_hostModel = ''R740'', vm_hostIp = ''10.0.0.1'', vm_hostOs = ''ESXi'',
         vm_rack = ''A1'', vm_deployedBy = ''alice'', vm_user = ''bob'',
         vm_department = ''IT'', vm_startDate = ''2024-01-01'', vm_endDate = ''2024-12-31'',
         vm_jiraTicket = ''OPS-1'', vm_remarks = ''second'', vm_dateDeleted = None\<rparr>"
  have h: "\<forall>vm \<in> set [a, b]. list_all plain_field (vm_strings vm) \<and> list_all trimmed (vm_strings vm)"
    unfolding a_def b_def by code_simp
  have w: "map without_id [a, b] = [\<lparr>nv_vmId = ''vm-1'', nv_vmName = ''web'', nv_vmStatus = ''Running'',
         nv_vmIp = ''10.0.0.5'', nv_internetAccess = True, nv_vmOs = ''Ubuntu'',
         nv_vmOsVersion = ''22.04'', nv_hypervisor = ''kvm'', nv_hostname = ''host-1'',
         nv_hostModel = ''R740'', nv_hostIp = ''10.0.0.1'', nv_hostOs = ''ESXi'',
         nv_rack = ''A1'', nv_deployedBy = ''alice'', nv_user = ''bob'',
         nv_department = ''IT'', nv_startDate = ''2024-01-01'', nv_endDate = ''2024-12-31'',
         nv_jiraTicket = ''OPS-1'', nv_remarks = ''first machine'', nv_dateDeleted = None\<rparr>,
            \<lparr>nv_vmId = ''vm-2'', nv_vmName = ''db'', nv_vmStatus = ''Running'',
         nv_vmIp = ''10.0.0.5'', nv_internetAccess = False, nv_vmOs = ''Ubuntu'',
         nv_vmOsVersion = ''22.04'', nv_hypervisor = ''kvm'', nv_hostname = ''host-1'',
         nv_hostModel = ''R740'', nv_hostIp = ''10.0.0.1'', nv_hostOs = ''ESXi'',
         nv_rack = ''A1'', nv_deployedBy = ''alice'', nv_user = ''bob'',
         nv_department = ''IT'', nv_startDate = ''2024-01-01'', nv_endDate = ''2024-12-31'',
         nv_jiraTicket = ''OPS-1'', nv_remarks = ''second'', nv_dateDeleted = None\<rparr>]"
    unfolding a_def b_def by code_simp
  have "vm_round_trip [a, b] = Inr (map without_id [a, b])"
    using h by (intro vm_export_import_round_trip) simp_all
  then show ?thesis
    using h w unfolding a_def b_def by (simp add: list_all_iff)
qed

section \<open>The asset parser and rows of the wrong length\<close>



end
